theory Spec2Isabelle
  imports Main "HOL-Library.Word"
begin

section \<open>The output sink\<close>

text \<open>
  \<^verbatim>\<open>chart.c\<close> writes its document through the primitives of \<^verbatim>\<open>xmlwriter.h\<close>
  (\<^verbatim>\<open>lxw_xml_declaration\<close>, \<^verbatim>\<open>lxw_xml_start_tag\<close>, \<^verbatim>\<open>lxw_xml_empty_tag\<close>,
  \<^verbatim>\<open>lxw_xml_end_tag\<close>, \<^verbatim>\<open>lxw_xml_data_element\<close>) and builds attribute lists
  with the macros \<^verbatim>\<open>LXW_INIT_ATTRIBUTES\<close>, \<^verbatim>\<open>LXW_PUSH_ATTRIBUTES_STR\<close> and
  \<^verbatim>\<open>LXW_PUSH_ATTRIBUTES_INT\<close>. The sink \<^verbatim>\<open>self->file\<close> is the sequence of primitive
  calls made on it so far, each with the arguments \<^verbatim>\<open>chart.c\<close> passes; the bytes of
  the file are a function of that sequence.
\<close>

datatype xml_attribute =
    Attribute_str string string
  | Attribute_int string nat

datatype xml_call =
    Xml_declaration
  | Xml_start_tag string "xml_attribute list option"
  | Xml_empty_tag string "xml_attribute list option"
  | Xml_end_tag string
  | Xml_data_element string "string option" "xml_attribute list option"

text \<open>
  The primitives and the attribute macros belong to \<^verbatim>\<open>xmlwriter.h\<close> and
  \<^verbatim>\<open>xmlwriter.c\<close>, which are not part of \<^verbatim>\<open>chart.c\<close>. The design takes the
  tag-emission primitive as correct and always succeeding; here each one appends its call
  to the sink, and each push macro appends its attribute to the list. A \<^verbatim>\<open>NULL\<close>
  attribute list or data pointer is \<open>None\<close>.
\<close>

text \<open>Modelled from the spec: \<^verbatim>\<open>lxw_xml_declaration\<close> (xmlwriter), the XML declaration.\<close>

definition lxw_xml_declaration :: "xml_call list \<Rightarrow> xml_call list" where
  "lxw_xml_declaration f = f @ [Xml_declaration]"

text \<open>Modelled from the spec: \<^verbatim>\<open>lxw_xml_start_tag\<close> (xmlwriter), which opens a tag.\<close>

definition lxw_xml_start_tag ::
  "xml_call list \<Rightarrow> string \<Rightarrow> xml_attribute list option \<Rightarrow> xml_call list" where
  "lxw_xml_start_tag f tag attributes = f @ [Xml_start_tag tag attributes]"

text \<open>
  Modelled from the spec: \<^verbatim>\<open>lxw_xml_empty_tag\<close> (xmlwriter), which writes a tag with no
  content.
\<close>

definition lxw_xml_empty_tag ::
  "xml_call list \<Rightarrow> string \<Rightarrow> xml_attribute list option \<Rightarrow> xml_call list" where
  "lxw_xml_empty_tag f tag attributes = f @ [Xml_empty_tag tag attributes]"

text \<open>Modelled from the spec: \<^verbatim>\<open>lxw_xml_end_tag\<close> (xmlwriter), which closes a tag.\<close>

definition lxw_xml_end_tag :: "xml_call list \<Rightarrow> string \<Rightarrow> xml_call list" where
  "lxw_xml_end_tag f tag = f @ [Xml_end_tag tag]"

text \<open>
  Modelled from the spec: \<^verbatim>\<open>lxw_xml_data_element\<close> (xmlwriter), which writes a tag around
  a text.
\<close>

definition lxw_xml_data_element ::
  "xml_call list \<Rightarrow> string \<Rightarrow> string option \<Rightarrow> xml_attribute list option \<Rightarrow> xml_call list" where
  "lxw_xml_data_element f tag data attributes = f @ [Xml_data_element tag data attributes]"

text \<open>
  Modelled from the spec: the macro \<^verbatim>\<open>LXW_INIT_ATTRIBUTES\<close> (xmlwriter), the empty
  attribute list. \<^verbatim>\<open>LXW_FREE_ATTRIBUTES\<close> releases the list after the call and leaves no
  trace in the sink.
\<close>

definition LXW_INIT_ATTRIBUTES :: "xml_attribute list" where
  "LXW_INIT_ATTRIBUTES = []"

text \<open>
  Modelled from the spec: the macro \<^verbatim>\<open>LXW_PUSH_ATTRIBUTES_STR\<close> (xmlwriter), which adds
  an attribute with a string value at the end of the list.
\<close>

definition LXW_PUSH_ATTRIBUTES_STR ::
  "xml_attribute list \<Rightarrow> string \<Rightarrow> string \<Rightarrow> xml_attribute list" where
  "LXW_PUSH_ATTRIBUTES_STR attributes key val = attributes @ [Attribute_str key val]"

text \<open>
  Modelled from the spec: the macro \<^verbatim>\<open>LXW_PUSH_ATTRIBUTES_INT\<close> (xmlwriter), which adds
  an attribute with an integer value at the end of the list; the value is kept as the
  number \<^verbatim>\<open>chart.c\<close> passes.
\<close>

definition LXW_PUSH_ATTRIBUTES_INT ::
  "xml_attribute list \<Rightarrow> string \<Rightarrow> nat \<Rightarrow> xml_attribute list" where
  "LXW_PUSH_ATTRIBUTES_INT attributes key val = attributes @ [Attribute_int key val]"

section \<open>The chart model\<close>

text \<open>
  Modelled from the spec: the structs \<^verbatim>\<open>lxw_series_range\<close>, \<^verbatim>\<open>lxw_chart_series\<close> and
  \<^verbatim>\<open>lxw_chart\<close> of \<^verbatim>\<open>chart.h\<close>, which is not among the sources: the fields of the
  design's data model, with the widths \<^verbatim>\<open>chart.c\<close> uses them at:
  \<^verbatim>\<open>uint16_t index = self->series_index++\<close>, \<^verbatim>\<open>uint32_t chart_id = 50010000 + self->id\<close>,
  and the axis ids passed as \<^verbatim>\<open>uint32_t axis_id\<close>. A \<^verbatim>\<open>char *\<close> is a
  \<open>string option\<close> (\<open>None\<close> is \<^verbatim>\<open>NULL\<close>); the \<^verbatim>\<open>STAILQ\<close> of series is the list
  of its nodes from head to tail, and the pointer \<^verbatim>\<open>chart->series\<close> to its head
  structure may be \<^verbatim>\<open>NULL\<close>. The fields \<open>file_f\<close>, \<open>range_f\<close>, \<open>values_f\<close> and \<open>id_f\<close> are the
  C fields \<^verbatim>\<open>file\<close>, \<^verbatim>\<open>range\<close>, \<^verbatim>\<open>values\<close> and \<^verbatim>\<open>id\<close>.
\<close>

record lxw_series_range =
  range_f :: "string option"
  sheetname :: "string option"

record lxw_chart_series =
  values_f :: lxw_series_range

record lxw_chart =
  file_f :: "xml_call list"
  id_f :: "32 word"
  axis_id_1 :: "32 word"
  axis_id_2 :: "32 word"
  series_index :: "16 word"
  series :: "lxw_chart_series list option"

section \<open>Memory\<close>

text \<open>
  The C library's allocator, as far as \<^verbatim>\<open>chart.c\<close> uses it; \<open>calloc\<close> stands for
  every allocation request, the one inside \<^verbatim>\<open>lxw_strdup\<close> too. \<open>live\<close> lists the
  blocks that were allocated and not yet freed; \<open>fates\<close> gives the outcome of the
  coming allocation requests, in order (\<open>False\<close>: the request fails and returns
  \<^verbatim>\<open>NULL\<close>); once the list is used up every request succeeds. \<^verbatim>\<open>free(NULL)\<close> does
  nothing.
\<close>

datatype block = Chart_block | Series_list_block | Series_block | String_block string

record memory =
  live :: "block list"
  fates :: "bool list"

definition calloc :: "block \<Rightarrow> memory \<Rightarrow> bool \<times> memory" where
  "calloc b m =
     (case fates m of
        [] \<Rightarrow> (True, m\<lparr>live := b # live m\<rparr>)
      | ok # rest \<Rightarrow>
          if ok then (True, m\<lparr>live := b # live m, fates := rest\<rparr>)
          else (False, m\<lparr>fates := rest\<rparr>))"

definition free :: "block option \<Rightarrow> memory \<Rightarrow> memory" where
  "free p m = (case p of None \<Rightarrow> m | Some b \<Rightarrow> m\<lparr>live := remove1 b (live m)\<rparr>)"

text \<open>
  Modelled from the spec: \<^verbatim>\<open>lxw_strdup\<close> of \<^verbatim>\<open>utility.c\<close>, the string duplication
  utility, which is not part of \<^verbatim>\<open>chart.c\<close>. It returns an owned copy of the string,
  or \<^verbatim>\<open>NULL\<close> when its allocation fails or when it is given \<^verbatim>\<open>NULL\<close>.
\<close>

definition lxw_strdup :: "string option \<Rightarrow> memory \<Rightarrow> string option \<times> memory" where
  "lxw_strdup str m =
     (case str of
        None \<Rightarrow> (None, m)
      | Some s \<Rightarrow>
          (let (ok, m') = calloc (String_block s) m
           in if ok then (Some s, m') else (None, m')))"

section \<open>Creating and freeing a chart\<close>

text \<open>
  The macros \<^verbatim>\<open>GOTO_LABEL_ON_MEM_ERROR(ptr, label)\<close> and \<^verbatim>\<open>RETURN_ON_MEM_ERROR(ptr, ret)\<close>
  are not defined in \<^verbatim>\<open>chart.c\<close>; by the design's account of allocation failure (the
  partial state is torn down and a failure indicator returned) the first jumps to the
  label and the second returns \<open>ret\<close> when the pointer is \<^verbatim>\<open>NULL\<close>. They are the tests on
  the outcome of \<open>calloc\<close> below. \<^verbatim>\<open>LXW_WARN\<close> prints a message and changes nothing.
\<close>

text \<open>The \<^verbatim>\<open>while (!STAILQ_EMPTY(chart->series))\<close> loop of \<^verbatim>\<open>lxw_chart_free\<close>.\<close>

fun lxw_chart_free_loop :: "lxw_chart_series list \<Rightarrow> memory \<Rightarrow> memory" where
  "lxw_chart_free_loop [] m = m"
| "lxw_chart_free_loop (ser # rest) m =
     lxw_chart_free_loop rest
       (free (map_option String_block (sheetname (values_f ser)))
          (free (map_option String_block (range_f (values_f ser))) m))"

definition lxw_chart_free :: "lxw_chart option \<Rightarrow> memory \<Rightarrow> memory" where
  "lxw_chart_free chart m =
     (case chart of
        None \<Rightarrow> m
      | Some c \<Rightarrow>
          (let m = (case series c of
                      None \<Rightarrow> m
                    | Some q \<Rightarrow> free (Some Series_list_block) (lxw_chart_free_loop q m))
           in free (Some Chart_block) m))"

text \<open>The struct as \<^verbatim>\<open>calloc(1, sizeof(lxw_chart))\<close> returns it: every field zero.\<close>

definition zeroed_chart :: lxw_chart where
  "zeroed_chart =
     \<lparr>file_f = [], id_f = 0, axis_id_1 = 0, axis_id_2 = 0, series_index = 0, series = None\<rparr>"

definition lxw_chart_new :: "memory \<Rightarrow> lxw_chart option \<times> memory" where
  "lxw_chart_new m =
     (let (ok, m) = calloc Chart_block m
      in if \<not> ok then (None, lxw_chart_free None m)
         else
           (let chart = zeroed_chart;
                (ok, m) = calloc Series_list_block m
            in if \<not> ok then (None, lxw_chart_free (Some chart) m)
               else (Some (chart\<lparr>series := Some []\<rparr>), m)))"

section \<open>Adding a series\<close>

text \<open>
  \<^verbatim>\<open>chart_add_series\<close> returns \<^verbatim>\<open>-1\<close> or \<^verbatim>\<open>0\<close>, with the chart and the memory as it
  leaves them. \<^verbatim>\<open>STAILQ_INSERT_TAIL\<close> reads through \<^verbatim>\<open>self->series\<close>; where that
  pointer is \<^verbatim>\<open>NULL\<close> the call has no result (\<open>None\<close>).
\<close>

definition chart_add_series ::
  "lxw_chart \<Rightarrow> lxw_chart_series option \<Rightarrow> memory \<Rightarrow> (int \<times> lxw_chart \<times> memory) option" where
  "chart_add_series self user_series m =
     (case user_series of
        None \<Rightarrow> Some (- 1, self, m)
      | Some us \<Rightarrow>
          (let (ok, m) = calloc Series_block m
           in if \<not> ok then Some (- 1, self, m)
              else
                (let (r, m) = lxw_strdup (range_f (values_f us)) m;
                     (s, m) = lxw_strdup (sheetname (values_f us)) m;
                     ser = us\<lparr>values_f := (values_f us)\<lparr>range_f := r, sheetname := s\<rparr>\<rparr>
                 in case series self of
                      None \<Rightarrow> None
                    | Some q \<Rightarrow> Some (0, self\<lparr>series := Some (q @ [ser])\<rparr>, m))))"

section \<open>The XML functions\<close>

text \<open>
  Every \<^verbatim>\<open>_chart_write_...\<close> function of \<^verbatim>\<open>chart.c\<close>, under its name without the
  leading underscore, as a function from the chart before the call to the chart after
  it.
\<close>

definition chart_xml_declaration :: "lxw_chart \<Rightarrow> lxw_chart" where
  "chart_xml_declaration self = self\<lparr>file_f := lxw_xml_declaration (file_f self)\<rparr>"

definition chart_write_chart_space :: "lxw_chart \<Rightarrow> lxw_chart" where
  "chart_write_chart_space self =
     (let xmlns_c = ''http://schemas.openxmlformats.org/drawingml/2006/chart'';
          xmlns_a = ''http://schemas.openxmlformats.org/drawingml/2006/main'';
          xmlns_r = ''http://schemas.openxmlformats.org/officeDocument/2006/relationships'';
          attributes = LXW_INIT_ATTRIBUTES;
          attributes = LXW_PUSH_ATTRIBUTES_STR attributes ''xmlns:c'' xmlns_c;
          attributes = LXW_PUSH_ATTRIBUTES_STR attributes ''xmlns:a'' xmlns_a;
          attributes = LXW_PUSH_ATTRIBUTES_STR attributes ''xmlns:r'' xmlns_r
      in self\<lparr>file_f := lxw_xml_start_tag (file_f self) ''c:chartSpace'' (Some attributes)\<rparr>)"

definition chart_write_lang :: "lxw_chart \<Rightarrow> lxw_chart" where
  "chart_write_lang self =
     (let attributes = LXW_INIT_ATTRIBUTES;
          attributes = LXW_PUSH_ATTRIBUTES_STR attributes ''val'' ''en-US''
      in self\<lparr>file_f := lxw_xml_empty_tag (file_f self) ''c:lang'' (Some attributes)\<rparr>)"

definition chart_write_layout :: "lxw_chart \<Rightarrow> lxw_chart" where
  "chart_write_layout self = self\<lparr>file_f := lxw_xml_empty_tag (file_f self) ''c:layout'' None\<rparr>"

definition chart_write_grouping :: "lxw_chart \<Rightarrow> lxw_chart" where
  "chart_write_grouping self =
     (let attributes = LXW_INIT_ATTRIBUTES;
          attributes = LXW_PUSH_ATTRIBUTES_STR attributes ''val'' ''clustered''
      in self\<lparr>file_f := lxw_xml_empty_tag (file_f self) ''c:grouping'' (Some attributes)\<rparr>)"

definition chart_write_idx :: "lxw_chart \<Rightarrow> 16 word \<Rightarrow> lxw_chart" where
  "chart_write_idx self index =
     (let attributes = LXW_INIT_ATTRIBUTES;
          attributes = LXW_PUSH_ATTRIBUTES_INT attributes ''val'' (unat index)
      in self\<lparr>file_f := lxw_xml_empty_tag (file_f self) ''c:idx'' (Some attributes)\<rparr>)"

definition chart_write_order :: "lxw_chart \<Rightarrow> 16 word \<Rightarrow> lxw_chart" where
  "chart_write_order self index =
     (let attributes = LXW_INIT_ATTRIBUTES;
          attributes = LXW_PUSH_ATTRIBUTES_INT attributes ''val'' (unat index)
      in self\<lparr>file_f := lxw_xml_empty_tag (file_f self) ''c:order'' (Some attributes)\<rparr>)"

definition chart_add_axis_ids :: "lxw_chart \<Rightarrow> lxw_chart" where
  "chart_add_axis_ids self =
     (let chart_id = (50010000 :: 32 word) + id_f self;
          axis_count = (1 :: 32 word);
          self = self\<lparr>axis_id_1 := chart_id + axis_count\<rparr>
      in self\<lparr>axis_id_2 := axis_id_1 self\<rparr>)"

definition chart_write_axis_id :: "lxw_chart \<Rightarrow> 32 word \<Rightarrow> lxw_chart" where
  "chart_write_axis_id self axis_id =
     (let attributes = LXW_INIT_ATTRIBUTES;
          attributes = LXW_PUSH_ATTRIBUTES_INT attributes ''val'' (unat axis_id)
      in self\<lparr>file_f := lxw_xml_empty_tag (file_f self) ''c:axId'' (Some attributes)\<rparr>)"

definition chart_write_axis_ids :: "lxw_chart \<Rightarrow> lxw_chart" where
  "chart_write_axis_ids self =
     (let self = (if axis_id_1 self = 0 then chart_add_axis_ids self else self);
          self = chart_write_axis_id self (axis_id_1 self)
      in chart_write_axis_id self (axis_id_2 self))"

definition chart_write_f :: "lxw_chart \<Rightarrow> string option \<Rightarrow> lxw_chart" where
  "chart_write_f self rng =
     self\<lparr>file_f := lxw_xml_data_element (file_f self) ''c:f'' rng None\<rparr>"

definition chart_write_num_ref :: "lxw_chart \<Rightarrow> string option \<Rightarrow> lxw_chart" where
  "chart_write_num_ref self rng =
     (let self = self\<lparr>file_f := lxw_xml_start_tag (file_f self) ''c:numRef'' None\<rparr>;
          self = chart_write_f self rng
      in self\<lparr>file_f := lxw_xml_end_tag (file_f self) ''c:numRef''\<rparr>)"

definition chart_write_val :: "lxw_chart \<Rightarrow> lxw_chart_series \<Rightarrow> lxw_chart" where
  "chart_write_val self ser =
     (let self = self\<lparr>file_f := lxw_xml_start_tag (file_f self) ''c:val'' None\<rparr>;
          self = chart_write_num_ref self (range_f (values_f ser))
      in self\<lparr>file_f := lxw_xml_end_tag (file_f self) ''c:val''\<rparr>)"

text \<open>\<^verbatim>\<open>uint16_t index = self->series_index++\<close>: the counter wraps at \<open>2 ^ 16\<close>.\<close>

definition chart_write_ser :: "lxw_chart \<Rightarrow> lxw_chart_series \<Rightarrow> lxw_chart" where
  "chart_write_ser self ser =
     (let index = series_index self;
          self = self\<lparr>series_index := series_index self + 1\<rparr>;
          self = self\<lparr>file_f := lxw_xml_start_tag (file_f self) ''c:ser'' None\<rparr>;
          self = chart_write_idx self index;
          self = chart_write_order self index;
          self = chart_write_val self ser
      in self\<lparr>file_f := lxw_xml_end_tag (file_f self) ''c:ser''\<rparr>)"

definition chart_write_orientation :: "lxw_chart \<Rightarrow> lxw_chart" where
  "chart_write_orientation self =
     (let attributes = LXW_INIT_ATTRIBUTES;
          attributes = LXW_PUSH_ATTRIBUTES_STR attributes ''val'' ''minMax''
      in self\<lparr>file_f := lxw_xml_empty_tag (file_f self) ''c:orientation'' (Some attributes)\<rparr>)"

definition chart_write_scaling :: "lxw_chart \<Rightarrow> lxw_chart" where
  "chart_write_scaling self =
     (let self = self\<lparr>file_f := lxw_xml_start_tag (file_f self) ''c:scaling'' None\<rparr>;
          self = chart_write_orientation self
      in self\<lparr>file_f := lxw_xml_end_tag (file_f self) ''c:scaling''\<rparr>)"

definition chart_write_axis_pos :: "lxw_chart \<Rightarrow> string \<Rightarrow> lxw_chart" where
  "chart_write_axis_pos self position =
     (let attributes = LXW_INIT_ATTRIBUTES;
          attributes = LXW_PUSH_ATTRIBUTES_STR attributes ''val'' position
      in self\<lparr>file_f := lxw_xml_empty_tag (file_f self) ''c:axPos'' (Some attributes)\<rparr>)"

definition chart_write_tick_lbl_pos :: "lxw_chart \<Rightarrow> lxw_chart" where
  "chart_write_tick_lbl_pos self =
     (let attributes = LXW_INIT_ATTRIBUTES;
          attributes = LXW_PUSH_ATTRIBUTES_STR attributes ''val'' ''nextTo''
      in self\<lparr>file_f := lxw_xml_empty_tag (file_f self) ''c:tickLblPos'' (Some attributes)\<rparr>)"

definition chart_write_cross_axis :: "lxw_chart \<Rightarrow> 32 word \<Rightarrow> lxw_chart" where
  "chart_write_cross_axis self axis_id =
     (let attributes = LXW_INIT_ATTRIBUTES;
          attributes = LXW_PUSH_ATTRIBUTES_INT attributes ''val'' (unat axis_id)
      in self\<lparr>file_f := lxw_xml_empty_tag (file_f self) ''c:crossAx'' (Some attributes)\<rparr>)"

definition chart_write_crosses :: "lxw_chart \<Rightarrow> lxw_chart" where
  "chart_write_crosses self =
     (let attributes = LXW_INIT_ATTRIBUTES;
          attributes = LXW_PUSH_ATTRIBUTES_STR attributes ''val'' ''autoZero''
      in self\<lparr>file_f := lxw_xml_empty_tag (file_f self) ''c:crosses'' (Some attributes)\<rparr>)"

definition chart_write_auto :: "lxw_chart \<Rightarrow> lxw_chart" where
  "chart_write_auto self =
     (let attributes = LXW_INIT_ATTRIBUTES;
          attributes = LXW_PUSH_ATTRIBUTES_STR attributes ''val'' ''1''
      in self\<lparr>file_f := lxw_xml_empty_tag (file_f self) ''c:auto'' (Some attributes)\<rparr>)"

definition chart_write_lbl_algn :: "lxw_chart \<Rightarrow> lxw_chart" where
  "chart_write_lbl_algn self =
     (let attributes = LXW_INIT_ATTRIBUTES;
          attributes = LXW_PUSH_ATTRIBUTES_STR attributes ''val'' ''ctr''
      in self\<lparr>file_f := lxw_xml_empty_tag (file_f self) ''c:lblAlgn'' (Some attributes)\<rparr>)"

definition chart_write_lbl_offset :: "lxw_chart \<Rightarrow> lxw_chart" where
  "chart_write_lbl_offset self =
     (let attributes = LXW_INIT_ATTRIBUTES;
          attributes = LXW_PUSH_ATTRIBUTES_STR attributes ''val'' ''100''
      in self\<lparr>file_f := lxw_xml_empty_tag (file_f self) ''c:lblOffset'' (Some attributes)\<rparr>)"

definition chart_write_major_gridlines :: "lxw_chart \<Rightarrow> lxw_chart" where
  "chart_write_major_gridlines self = self\<lparr>file_f := lxw_xml_empty_tag (file_f self) ''c:majorGridlines'' None\<rparr>"

definition chart_write_num_fmt :: "lxw_chart \<Rightarrow> lxw_chart" where
  "chart_write_num_fmt self =
     (let attributes = LXW_INIT_ATTRIBUTES;
          attributes = LXW_PUSH_ATTRIBUTES_STR attributes ''formatCode'' ''General'';
          attributes = LXW_PUSH_ATTRIBUTES_STR attributes ''sourceLinked'' ''1''
      in self\<lparr>file_f := lxw_xml_empty_tag (file_f self) ''c:numFmt'' (Some attributes)\<rparr>)"

definition chart_write_cross_between :: "lxw_chart \<Rightarrow> lxw_chart" where
  "chart_write_cross_between self =
     (let attributes = LXW_INIT_ATTRIBUTES;
          attributes = LXW_PUSH_ATTRIBUTES_STR attributes ''val'' ''between''
      in self\<lparr>file_f := lxw_xml_empty_tag (file_f self) ''c:crossBetween'' (Some attributes)\<rparr>)"

definition chart_write_legend_pos :: "lxw_chart \<Rightarrow> lxw_chart" where
  "chart_write_legend_pos self =
     (let attributes = LXW_INIT_ATTRIBUTES;
          attributes = LXW_PUSH_ATTRIBUTES_STR attributes ''val'' ''r''
      in self\<lparr>file_f := lxw_xml_empty_tag (file_f self) ''c:legendPos'' (Some attributes)\<rparr>)"

definition chart_write_legend :: "lxw_chart \<Rightarrow> lxw_chart" where
  "chart_write_legend self =
     (let self = self\<lparr>file_f := lxw_xml_start_tag (file_f self) ''c:legend'' None\<rparr>;
          self = chart_write_legend_pos self;
          self = chart_write_layout self
      in self\<lparr>file_f := lxw_xml_end_tag (file_f self) ''c:legend''\<rparr>)"

definition chart_write_plot_vis_only :: "lxw_chart \<Rightarrow> lxw_chart" where
  "chart_write_plot_vis_only self =
     (let attributes = LXW_INIT_ATTRIBUTES;
          attributes = LXW_PUSH_ATTRIBUTES_STR attributes ''val'' ''1''
      in self\<lparr>file_f := lxw_xml_empty_tag (file_f self) ''c:plotVisOnly'' (Some attributes)\<rparr>)"

definition chart_write_header_footer :: "lxw_chart \<Rightarrow> lxw_chart" where
  "chart_write_header_footer self = self\<lparr>file_f := lxw_xml_empty_tag (file_f self) ''c:headerFooter'' None\<rparr>"

definition chart_write_page_margins :: "lxw_chart \<Rightarrow> lxw_chart" where
  "chart_write_page_margins self =
     (let attributes = LXW_INIT_ATTRIBUTES;
          attributes = LXW_PUSH_ATTRIBUTES_STR attributes ''b'' ''0.75'';
          attributes = LXW_PUSH_ATTRIBUTES_STR attributes ''l'' ''0.7'';
          attributes = LXW_PUSH_ATTRIBUTES_STR attributes ''r'' ''0.7'';
          attributes = LXW_PUSH_ATTRIBUTES_STR attributes ''t'' ''0.75'';
          attributes = LXW_PUSH_ATTRIBUTES_STR attributes ''header'' ''0.3'';
          attributes = LXW_PUSH_ATTRIBUTES_STR attributes ''footer'' ''0.3''
      in self\<lparr>file_f := lxw_xml_empty_tag (file_f self) ''c:pageMargins'' (Some attributes)\<rparr>)"

definition chart_write_page_setup :: "lxw_chart \<Rightarrow> lxw_chart" where
  "chart_write_page_setup self = self\<lparr>file_f := lxw_xml_empty_tag (file_f self) ''c:pageSetup'' None\<rparr>"

definition chart_write_print_settings :: "lxw_chart \<Rightarrow> lxw_chart" where
  "chart_write_print_settings self =
     (let self = self\<lparr>file_f := lxw_xml_start_tag (file_f self) ''c:printSettings'' None\<rparr>;
          self = chart_write_header_footer self;
          self = chart_write_page_margins self;
          self = chart_write_page_setup self
      in self\<lparr>file_f := lxw_xml_end_tag (file_f self) ''c:printSettings''\<rparr>)"

definition chart_write_cat_axis :: "lxw_chart \<Rightarrow> lxw_chart" where
  "chart_write_cat_axis self =
     (let self = self\<lparr>file_f := lxw_xml_start_tag (file_f self) ''c:catAx'' None\<rparr>;
          self = chart_write_axis_id self (axis_id_1 self);
          self = chart_write_scaling self;
          self = chart_write_axis_pos self ''l'';
          self = chart_write_tick_lbl_pos self;
          self = chart_write_cross_axis self (axis_id_2 self);
          self = chart_write_crosses self;
          self = chart_write_auto self;
          self = chart_write_lbl_algn self;
          self = chart_write_lbl_offset self
      in self\<lparr>file_f := lxw_xml_end_tag (file_f self) ''c:catAx''\<rparr>)"

definition chart_write_val_ax :: "lxw_chart \<Rightarrow> lxw_chart" where
  "chart_write_val_ax self =
     (let self = self\<lparr>file_f := lxw_xml_start_tag (file_f self) ''c:valAx'' None\<rparr>;
          self = chart_write_axis_id self (axis_id_2 self);
          self = chart_write_scaling self;
          self = chart_write_axis_pos self ''b'';
          self = chart_write_major_gridlines self;
          self = chart_write_num_fmt self;
          self = chart_write_tick_lbl_pos self;
          self = chart_write_cross_axis self (axis_id_1 self);
          self = chart_write_crosses self;
          self = chart_write_cross_between self
      in self\<lparr>file_f := lxw_xml_end_tag (file_f self) ''c:valAx''\<rparr>)"

definition chart_write_bar_dir :: "lxw_chart \<Rightarrow> lxw_chart" where
  "chart_write_bar_dir self =
     (let attributes = LXW_INIT_ATTRIBUTES;
          attributes = LXW_PUSH_ATTRIBUTES_STR attributes ''val'' ''bar''
      in self\<lparr>file_f := lxw_xml_empty_tag (file_f self) ''c:barDir'' (Some attributes)\<rparr>)"

text \<open>
  The \<^verbatim>\<open>STAILQ_FOREACH\<close> loop of \<^verbatim>\<open>_chart_write_bar_chart\<close>, over the nodes of the
  queue from its head.
\<close>

fun chart_write_bar_chart_loop :: "lxw_chart_series list \<Rightarrow> lxw_chart \<Rightarrow> lxw_chart" where
  "chart_write_bar_chart_loop [] self = self"
| "chart_write_bar_chart_loop (ser # rest) self =
     chart_write_bar_chart_loop rest (chart_write_ser self ser)"

text \<open>
  The loop reads through \<^verbatim>\<open>self->series\<close>; where that pointer is \<^verbatim>\<open>NULL\<close> the call,
  and every function that calls it, has no result (\<open>None\<close>).
\<close>

definition chart_write_bar_chart :: "lxw_chart \<Rightarrow> lxw_chart option" where
  "chart_write_bar_chart self =
     (let self = self\<lparr>file_f := lxw_xml_start_tag (file_f self) ''c:barChart'' None\<rparr>;
          self = chart_write_bar_dir self;
          self = chart_write_grouping self
      in case series self of
           None \<Rightarrow> None
         | Some q \<Rightarrow>
             (let self = chart_write_bar_chart_loop q self;
                  self = chart_write_axis_ids self
              in Some (self\<lparr>file_f := lxw_xml_end_tag (file_f self) ''c:barChart''\<rparr>)))"

definition chart_write_chart_type :: "lxw_chart \<Rightarrow> lxw_chart option" where
  "chart_write_chart_type self = chart_write_bar_chart self"

definition chart_write_plot_area :: "lxw_chart \<Rightarrow> lxw_chart option" where
  "chart_write_plot_area self =
     (let self = self\<lparr>file_f := lxw_xml_start_tag (file_f self) ''c:plotArea'' None\<rparr>;
          self = chart_write_layout self
      in chart_write_chart_type self)"

definition chart_write_chart :: "lxw_chart \<Rightarrow> lxw_chart option" where
  "chart_write_chart self =
     (let self = self\<lparr>file_f := lxw_xml_start_tag (file_f self) ''c:chart'' None\<rparr>
      in case chart_write_plot_area self of
           None \<Rightarrow> None
         | Some self \<Rightarrow>
             (let self = chart_write_cat_axis self;
                  self = chart_write_val_ax self;
                  self = self\<lparr>file_f := lxw_xml_end_tag (file_f self) ''c:plotArea''\<rparr>;
                  self = chart_write_legend self;
                  self = chart_write_plot_vis_only self
              in Some (self\<lparr>file_f := lxw_xml_end_tag (file_f self) ''c:chart''\<rparr>)))"

definition lxw_chart_assemble_xml_file :: "lxw_chart \<Rightarrow> lxw_chart option" where
  "lxw_chart_assemble_xml_file self =
     (let self = chart_xml_declaration self;
          self = chart_write_chart_space self;
          self = chart_write_lang self
      in case chart_write_chart self of
           None \<Rightarrow> None
         | Some self \<Rightarrow>
             (let self = chart_write_print_settings self
              in Some (self\<lparr>file_f := lxw_xml_end_tag (file_f self) ''c:chartSpace''\<rparr>)))"

section \<open>The document the schema asks for\<close>

text \<open>
  The tag tree of the design, written out as the sequence of calls that produces it: the
  series block for index \<open>i\<close> and order \<open>i\<close> around a range, the part of the document
  before the series blocks, the blocks of the two axes (each with its own id and the id
  of the axis it crosses), the legend and the print settings, and the part of the
  document after the series blocks, where \<open>a1\<close> and \<open>a2\<close> are the identifiers of
  "axis 1" (the category axis) and "axis 2" (the value axis). The theorems compare the
  output of \<open>lxw_chart_assemble_xml_file\<close> with it.
\<close>

definition ser_block :: "nat \<Rightarrow> string option \<Rightarrow> xml_call list" where
  "ser_block i rng =
     [Xml_start_tag ''c:ser'' None,
      Xml_empty_tag ''c:idx'' (Some [Attribute_int ''val'' i]),
      Xml_empty_tag ''c:order'' (Some [Attribute_int ''val'' i]),
      Xml_start_tag ''c:val'' None,
      Xml_start_tag ''c:numRef'' None,
      Xml_data_element ''c:f'' rng None,
      Xml_end_tag ''c:numRef'',
      Xml_end_tag ''c:val'',
      Xml_end_tag ''c:ser'']"

definition document_head :: "xml_call list" where
  "document_head =
     [Xml_declaration,
      Xml_start_tag ''c:chartSpace'' (Some
        [Attribute_str ''xmlns:c'' ''http://schemas.openxmlformats.org/drawingml/2006/chart'',
         Attribute_str ''xmlns:a'' ''http://schemas.openxmlformats.org/drawingml/2006/main'',
         Attribute_str ''xmlns:r''
           ''http://schemas.openxmlformats.org/officeDocument/2006/relationships'']),
      Xml_empty_tag ''c:lang'' (Some [Attribute_str ''val'' ''en-US'']),
      Xml_start_tag ''c:chart'' None,
      Xml_start_tag ''c:plotArea'' None,
      Xml_empty_tag ''c:layout'' None,
      Xml_start_tag ''c:barChart'' None,
      Xml_empty_tag ''c:barDir'' (Some [Attribute_str ''val'' ''bar'']),
      Xml_empty_tag ''c:grouping'' (Some [Attribute_str ''val'' ''clustered''])]"

definition cat_axis_block :: "nat \<Rightarrow> nat \<Rightarrow> xml_call list" where
  "cat_axis_block own cross =
     [Xml_start_tag ''c:catAx'' None,
      Xml_empty_tag ''c:axId'' (Some [Attribute_int ''val'' own]),
      Xml_start_tag ''c:scaling'' None,
      Xml_empty_tag ''c:orientation'' (Some [Attribute_str ''val'' ''minMax'']),
      Xml_end_tag ''c:scaling'',
      Xml_empty_tag ''c:axPos'' (Some [Attribute_str ''val'' ''l'']),
      Xml_empty_tag ''c:tickLblPos'' (Some [Attribute_str ''val'' ''nextTo'']),
      Xml_empty_tag ''c:crossAx'' (Some [Attribute_int ''val'' cross]),
      Xml_empty_tag ''c:crosses'' (Some [Attribute_str ''val'' ''autoZero'']),
      Xml_empty_tag ''c:auto'' (Some [Attribute_str ''val'' ''1'']),
      Xml_empty_tag ''c:lblAlgn'' (Some [Attribute_str ''val'' ''ctr'']),
      Xml_empty_tag ''c:lblOffset'' (Some [Attribute_str ''val'' ''100'']),
      Xml_end_tag ''c:catAx'']"

definition val_axis_block :: "nat \<Rightarrow> nat \<Rightarrow> xml_call list" where
  "val_axis_block own cross =
     [Xml_start_tag ''c:valAx'' None,
      Xml_empty_tag ''c:axId'' (Some [Attribute_int ''val'' own]),
      Xml_start_tag ''c:scaling'' None,
      Xml_empty_tag ''c:orientation'' (Some [Attribute_str ''val'' ''minMax'']),
      Xml_end_tag ''c:scaling'',
      Xml_empty_tag ''c:axPos'' (Some [Attribute_str ''val'' ''b'']),
      Xml_empty_tag ''c:majorGridlines'' None,
      Xml_empty_tag ''c:numFmt'' (Some
        [Attribute_str ''formatCode'' ''General'', Attribute_str ''sourceLinked'' ''1'']),
      Xml_empty_tag ''c:tickLblPos'' (Some [Attribute_str ''val'' ''nextTo'']),
      Xml_empty_tag ''c:crossAx'' (Some [Attribute_int ''val'' cross]),
      Xml_empty_tag ''c:crosses'' (Some [Attribute_str ''val'' ''autoZero'']),
      Xml_empty_tag ''c:crossBetween'' (Some [Attribute_str ''val'' ''between'']),
      Xml_end_tag ''c:valAx'']"

definition legend_block :: "xml_call list" where
  "legend_block =
     [Xml_start_tag ''c:legend'' None,
      Xml_empty_tag ''c:legendPos'' (Some [Attribute_str ''val'' ''r'']),
      Xml_empty_tag ''c:layout'' None,
      Xml_end_tag ''c:legend'']"

definition print_settings_block :: "xml_call list" where
  "print_settings_block =
     [Xml_start_tag ''c:printSettings'' None,
      Xml_empty_tag ''c:headerFooter'' None,
      Xml_empty_tag ''c:pageMargins'' (Some
        [Attribute_str ''b'' ''0.75'', Attribute_str ''l'' ''0.7'', Attribute_str ''r'' ''0.7'',
         Attribute_str ''t'' ''0.75'', Attribute_str ''header'' ''0.3'',
         Attribute_str ''footer'' ''0.3'']),
      Xml_empty_tag ''c:pageSetup'' None,
      Xml_end_tag ''c:printSettings'']"

definition document_tail :: "nat \<Rightarrow> nat \<Rightarrow> xml_call list" where
  "document_tail a1 a2 =
     [Xml_empty_tag ''c:axId'' (Some [Attribute_int ''val'' a1]),
      Xml_empty_tag ''c:axId'' (Some [Attribute_int ''val'' a2]),
      Xml_end_tag ''c:barChart'']
     @ cat_axis_block a1 a2
     @ val_axis_block a2 a1
     @ [Xml_end_tag ''c:plotArea'']
     @ legend_block
     @ [Xml_empty_tag ''c:plotVisOnly'' (Some [Attribute_str ''val'' ''1'']),
        Xml_end_tag ''c:chart'']
     @ print_settings_block
     @ [Xml_end_tag ''c:chartSpace'']"

text \<open>
  The series blocks of the queue \<open>q\<close> when the counter stands at \<open>k\<close> before the first
  of them: block after block, each numbered by the counter and the counter stepped.
\<close>

fun ser_blocks_from :: "16 word \<Rightarrow> lxw_chart_series list \<Rightarrow> xml_call list" where
  "ser_blocks_from k [] = []"
| "ser_blocks_from k (ser # rest) =
     ser_block (unat k) (range_f (values_f ser)) @ ser_blocks_from (k + 1) rest"

text \<open>
  The series blocks numbered \<open>0, 1, 2, ...\<close> in the order of the list, as the design
  states them.
\<close>

definition numbered_ser_blocks :: "lxw_chart_series list \<Rightarrow> xml_call list" where
  "numbered_ser_blocks q =
     concat (map (\<lambda>i. ser_block i (range_f (values_f (q ! i)))) [0..<length q])"

section \<open>Observing a pass and its document\<close>

text \<open>
  The axis ids a chart holds once they have been asked for: the first step of
  \<^verbatim>\<open>_chart_write_axis_ids\<close>.
\<close>

definition with_axis_ids :: "lxw_chart \<Rightarrow> lxw_chart" where
  "with_axis_ids self = (if axis_id_1 self = 0 then chart_add_axis_ids self else self)"

text \<open>The calls one assembly pass adds to the sink.\<close>

definition emitted :: "lxw_chart \<Rightarrow> xml_call list option" where
  "emitted self =
     map_option (\<lambda>self'. drop (length (file_f self)) (file_f self'))
       (lxw_chart_assemble_xml_file self)"

text \<open>
  The content of the first element \<open>tag\<close> of a document (the calls between its start tag
  and its end tag), and the values of the integer attribute of the empty tags \<open>tag\<close>
  among some calls, in document order.
\<close>

definition element :: "string \<Rightarrow> xml_call list \<Rightarrow> xml_call list" where
  "element tag cs =
     takeWhile (\<lambda>c. c \<noteq> Xml_end_tag tag)
       (tl (dropWhile (\<lambda>c. c \<noteq> Xml_start_tag tag None) cs))"

definition int_vals :: "string \<Rightarrow> xml_call list \<Rightarrow> nat list" where
  "int_vals tag cs =
     concat (map (\<lambda>c. case c of
                         Xml_empty_tag t (Some [Attribute_int k v]) \<Rightarrow> if t = tag then [v] else []
                       | _ \<Rightarrow> []) cs)"

section \<open>Adding several series\<close>

text \<open>
  \<^verbatim>\<open>chart_add_series\<close> called once per descriptor of a list, in order; the result
  collects the return values.
\<close>

fun chart_add_series_all ::
  "lxw_chart_series list \<Rightarrow> lxw_chart \<Rightarrow> memory \<Rightarrow> (int list \<times> lxw_chart \<times> memory) option" where
  "chart_add_series_all [] self m = Some ([], self, m)"
| "chart_add_series_all (d # ds) self m =
     (case chart_add_series self (Some d) m of
        None \<Rightarrow> None
      | Some (rc, self, m) \<Rightarrow>
          (case chart_add_series_all ds self m of
             None \<Rightarrow> None
           | Some (rcs, self, m) \<Rightarrow> Some (rc # rcs, self, m)))"

text \<open>Appending calls to the sink.\<close>

definition put :: "xml_call list \<Rightarrow> lxw_chart \<Rightarrow> lxw_chart" where
  "put cs self = self\<lparr>file_f := file_f self @ cs\<rparr>"

text \<open>
  The chart one assembly pass leaves when it starts from \<open>self\<close> with the queue \<open>q\<close>: the
  document appended to the sink, the axis ids in place and the counter stepped once per
  series.
\<close>

definition after_pass :: "lxw_chart_series list \<Rightarrow> lxw_chart \<Rightarrow> lxw_chart" where
  "after_pass q self =
     put (document_head @ ser_blocks_from (series_index self) q
          @ document_tail (unat (axis_id_1 (with_axis_ids self)))
                          (unat (axis_id_2 (with_axis_ids self))))
       ((with_axis_ids self)\<lparr>series_index := series_index self + of_nat (length q)\<rparr>)"

text \<open>
  The series blocks of the list with the \<open>i\<close>-th one numbered \<open>i mod 65536\<close>: what a
  16-bit counter that starts at zero gives.
\<close>

definition wrapped_ser_blocks :: "lxw_chart_series list \<Rightarrow> xml_call list" where
  "wrapped_ser_blocks q =
     concat (map (\<lambda>i. ser_block (i mod 65536) (range_f (values_f (q ! i)))) [0..<length q])"

section \<open>Example data\<close>

text \<open>
  The end-to-end example of the design: a chart with id \<open>1\<close> and two series, built on a
  chart as \<open>lxw_chart_new\<close> returns it in a memory where nothing is allocated yet.
\<close>

definition series_A :: lxw_chart_series where
  "series_A = \<lparr>values_f = \<lparr>range_f = Some ''Sheet1!$A$1:$A$3'', sheetname = Some ''Sheet1''\<rparr>\<rparr>"

definition series_B :: lxw_chart_series where
  "series_B = \<lparr>values_f = \<lparr>range_f = Some ''Sheet1!$B$1:$B$3'', sheetname = Some ''Sheet1''\<rparr>\<rparr>"

definition empty_memory :: memory where
  "empty_memory = \<lparr>live = [], fates = []\<rparr>"

definition fresh_chart :: lxw_chart where
  "fresh_chart = zeroed_chart\<lparr>series := Some []\<rparr>"

definition example_chart :: lxw_chart where
  "example_chart = fresh_chart\<lparr>id_f := 1, series := Some [series_A, series_B]\<rparr>"

text \<open>The memory once \<open>lxw_chart_new\<close> has succeeded in the empty memory.\<close>

definition memory_after_new :: memory where
  "memory_after_new = \<lparr>live = [Series_list_block, Chart_block], fates = []\<rparr>"

text \<open>A chart that already holds a pair of axis ids, other than the computed one.\<close>

definition cached_chart :: lxw_chart where
  "cached_chart = example_chart\<lparr>axis_id_1 := 5, axis_id_2 := 7\<rparr>"

section \<open>The writers as appended calls\<close>

lemmas xml_defs = lxw_xml_declaration_def lxw_xml_start_tag_def lxw_xml_empty_tag_def
  lxw_xml_end_tag_def lxw_xml_data_element_def LXW_INIT_ATTRIBUTES_def
  LXW_PUSH_ATTRIBUTES_STR_def LXW_PUSH_ATTRIBUTES_INT_def

lemmas leaf_defs = chart_xml_declaration_def chart_write_chart_space_def chart_write_lang_def
  chart_write_layout_def chart_write_grouping_def chart_write_axis_id_def
  chart_write_orientation_def chart_write_scaling_def chart_write_axis_pos_def
  chart_write_tick_lbl_pos_def chart_write_cross_axis_def chart_write_crosses_def
  chart_write_auto_def chart_write_lbl_algn_def chart_write_lbl_offset_def
  chart_write_major_gridlines_def chart_write_num_fmt_def chart_write_cross_between_def
  chart_write_legend_pos_def chart_write_legend_def chart_write_plot_vis_only_def
  chart_write_header_footer_def chart_write_page_margins_def chart_write_page_setup_def
  chart_write_print_settings_def chart_write_bar_dir_def

lemma put_put: "put cs (put ds self) = put (ds @ cs) self"
  by (simp add: put_def)

lemma put_fields:
  "file_f (put cs self) = file_f self @ cs"
  "id_f (put cs self) = id_f self"
  "axis_id_1 (put cs self) = axis_id_1 self"
  "axis_id_2 (put cs self) = axis_id_2 self"
  "series_index (put cs self) = series_index self"
  "series (put cs self) = series self"
  by (simp_all add: put_def)

lemma with_axis_ids_fields:
  "file_f (with_axis_ids self) = file_f self"
  "id_f (with_axis_ids self) = id_f self"
  "series_index (with_axis_ids self) = series_index self"
  "series (with_axis_ids self) = series self"
  by (simp_all add: with_axis_ids_def chart_add_axis_ids_def Let_def)

lemma with_axis_ids_series_index:
  "with_axis_ids (self\<lparr>series_index := k\<rparr>) = (with_axis_ids self)\<lparr>series_index := k\<rparr>"
  by (simp add: with_axis_ids_def chart_add_axis_ids_def Let_def)

lemma with_axis_ids_file_f:
  "with_axis_ids (self\<lparr>file_f := f\<rparr>) = (with_axis_ids self)\<lparr>file_f := f\<rparr>"
  by (simp add: with_axis_ids_def chart_add_axis_ids_def Let_def)

lemma chart_write_ser_eq:
  "chart_write_ser self ser =
     put (ser_block (unat (series_index self)) (range_f (values_f ser)))
       (self\<lparr>series_index := series_index self + 1\<rparr>)"
  by (simp add: chart_write_ser_def chart_write_idx_def chart_write_order_def
      chart_write_val_def chart_write_num_ref_def chart_write_f_def xml_defs put_def
      ser_block_def Let_def)

lemma chart_write_bar_chart_loop_eq:
  "chart_write_bar_chart_loop q self =
     put (ser_blocks_from (series_index self) q)
       (self\<lparr>series_index := series_index self + of_nat (length q)\<rparr>)"
proof (induction q arbitrary: self)
  case Nil
  show ?case by (simp add: put_def)
next
  case (Cons ser rest)
  show ?case
    by (simp add: Cons.IH chart_write_ser_eq put_put put_fields)
qed

lemma chart_write_axis_ids_eq:
  "chart_write_axis_ids self =
     put [Xml_empty_tag ''c:axId''
            (Some [Attribute_int ''val'' (unat (axis_id_1 (with_axis_ids self)))]),
          Xml_empty_tag ''c:axId''
            (Some [Attribute_int ''val'' (unat (axis_id_2 (with_axis_ids self)))])]
       (with_axis_ids self)"
  by (simp add: chart_write_axis_ids_def chart_write_axis_id_def with_axis_ids_def
      xml_defs put_def Let_def)

lemma chart_write_cat_axis_eq:
  "chart_write_cat_axis self =
     put (cat_axis_block (unat (axis_id_1 self)) (unat (axis_id_2 self))) self"
  by (simp add: chart_write_cat_axis_def leaf_defs xml_defs put_def cat_axis_block_def Let_def)

lemma chart_write_val_ax_eq:
  "chart_write_val_ax self =
     put (val_axis_block (unat (axis_id_2 self)) (unat (axis_id_1 self))) self"
  by (simp add: chart_write_val_ax_def leaf_defs xml_defs put_def val_axis_block_def Let_def)

lemma chart_write_legend_eq: "chart_write_legend self = put legend_block self"
  by (simp add: leaf_defs xml_defs put_def legend_block_def Let_def)

lemma chart_write_print_settings_eq:
  "chart_write_print_settings self = put print_settings_block self"
  by (simp add: leaf_defs xml_defs put_def print_settings_block_def Let_def)

lemma chart_write_bar_chart_eq:
  "chart_write_bar_chart self =
     (case series self of
        None \<Rightarrow> None
      | Some q \<Rightarrow>
          Some (put ([Xml_start_tag ''c:barChart'' None,
                      Xml_empty_tag ''c:barDir'' (Some [Attribute_str ''val'' ''bar'']),
                      Xml_empty_tag ''c:grouping'' (Some [Attribute_str ''val'' ''clustered''])]
                     @ ser_blocks_from (series_index self) q
                     @ [Xml_empty_tag ''c:axId''
                          (Some [Attribute_int ''val'' (unat (axis_id_1 (with_axis_ids self)))]),
                        Xml_empty_tag ''c:axId''
                          (Some [Attribute_int ''val'' (unat (axis_id_2 (with_axis_ids self)))]),
                        Xml_end_tag ''c:barChart''])
                 ((with_axis_ids self)
                    \<lparr>series_index := series_index self + of_nat (length q)\<rparr>)))"
  by (simp add: chart_write_bar_chart_def chart_write_bar_dir_def chart_write_grouping_def
      xml_defs chart_write_bar_chart_loop_eq chart_write_axis_ids_eq Let_def put_def
      with_axis_ids_file_f with_axis_ids_series_index with_axis_ids_fields
      split: option.split)

lemma chart_write_chart_eq:
  "chart_write_chart self =
     (case series self of
        None \<Rightarrow> None
      | Some q \<Rightarrow>
          Some (put (drop 3 document_head @ ser_blocks_from (series_index self) q
                     @ take 36 (document_tail (unat (axis_id_1 (with_axis_ids self)))
                                              (unat (axis_id_2 (with_axis_ids self)))))
                 ((with_axis_ids self)
                    \<lparr>series_index := series_index self + of_nat (length q)\<rparr>)))"
  by (simp add: chart_write_chart_def chart_write_plot_area_def chart_write_chart_type_def
      chart_write_layout_def chart_write_bar_chart_eq chart_write_cat_axis_eq
      chart_write_val_ax_eq chart_write_legend_eq chart_write_plot_vis_only_def
      xml_defs Let_def put_def with_axis_ids_file_f with_axis_ids_fields
      document_head_def document_tail_def cat_axis_block_def val_axis_block_def
      legend_block_def split: option.split)

lemma assemble_eq:
  "lxw_chart_assemble_xml_file self =
     (case series self of None \<Rightarrow> None | Some q \<Rightarrow> Some (after_pass q self))"
  by (simp add: lxw_chart_assemble_xml_file_def chart_xml_declaration_def
      chart_write_chart_space_def chart_write_lang_def chart_write_chart_eq
      chart_write_print_settings_eq xml_defs Let_def put_def with_axis_ids_file_f
      with_axis_ids_fields after_pass_def document_head_def document_tail_def
      cat_axis_block_def val_axis_block_def legend_block_def
      split: option.split)

lemma emitted_eq:
  "emitted self =
     (case series self of
        None \<Rightarrow> None
      | Some q \<Rightarrow>
          Some (document_head @ ser_blocks_from (series_index self) q
                @ document_tail (unat (axis_id_1 (with_axis_ids self)))
                                (unat (axis_id_2 (with_axis_ids self)))))"
  by (simp add: emitted_def assemble_eq after_pass_def put_def with_axis_ids_fields
      split: option.split)

lemmas example_defs = example_chart_def fresh_chart_def zeroed_chart_def series_A_def
  series_B_def

lemma example_chart_axis_ids:
  "unat (axis_id_1 (with_axis_ids example_chart)) = 50010002"
  "unat (axis_id_2 (with_axis_ids example_chart)) = 50010002"
  by (simp_all add: with_axis_ids_def chart_add_axis_ids_def example_defs Let_def)

lemma fresh_chart_axis_ids:
  "unat (axis_id_1 (with_axis_ids fresh_chart)) = 50010001"
  "unat (axis_id_2 (with_axis_ids fresh_chart)) = 50010001"
  by (simp_all add: with_axis_ids_def chart_add_axis_ids_def example_defs Let_def)

lemma example_chart_series: "series example_chart = Some [series_A, series_B]"
  by (simp add: example_defs)

lemma fresh_chart_series: "series fresh_chart = Some []"
  by (simp add: example_defs)

section \<open>Reading the document\<close>

lemma int_vals_append: "int_vals tag (xs @ ys) = int_vals tag xs @ int_vals tag ys"
  by (simp add: int_vals_def)

lemma int_vals_Nil: "int_vals tag [] = []"
  by (simp add: int_vals_def)

lemma element_skip:
  assumes "Xml_start_tag tag None \<notin> set xs"
  shows "element tag (xs @ ys) = element tag ys"
proof -
  have "dropWhile (\<lambda>c. c \<noteq> Xml_start_tag tag None) (xs @ ys)
        = dropWhile (\<lambda>c. c \<noteq> Xml_start_tag tag None) ys"
    using assms by (intro dropWhile_append2) auto
  then show ?thesis by (simp add: element_def)
qed

lemma ser_blocks_from_start_tags:
  "Xml_start_tag tag None \<in> set (ser_blocks_from k q) \<Longrightarrow>
     tag = ''c:ser'' \<or> tag = ''c:val'' \<or> tag = ''c:numRef''"
  by (induction q arbitrary: k) (auto simp: ser_block_def)

lemma int_vals_ser_block:
  "int_vals tag (ser_block i rng) =
     (if tag = ''c:idx'' \<or> tag = ''c:order'' then [i] else [])"
  by (auto simp: int_vals_def ser_block_def)

lemma int_vals_ser_blocks_from:
  "int_vals tag (ser_blocks_from k q) =
     (if tag = ''c:idx'' \<or> tag = ''c:order''
      then map (\<lambda>i. unat (k + of_nat i)) [0..<length q] else [])"
proof (induction q arbitrary: k)
  case Nil
  show ?case by (simp add: int_vals_Nil)
next
  case (Cons ser rest)
  have "map (\<lambda>i. unat (k + of_nat i)) [0..<length (ser # rest)]
        = unat k # map (\<lambda>i. unat (k + 1 + of_nat i)) [0..<length rest]"
    by (simp add: upt_conv_Cons map_Suc_upt [symmetric] add.assoc del: upt_Suc)
  then show ?case
    by (simp add: int_vals_append int_vals_ser_block Cons.IH)
qed

lemma element_cat_axis:
  "element ''c:catAx'' (document_head @ ser_blocks_from k q @ document_tail a1 a2)
     = butlast (tl (cat_axis_block a1 a2))"
proof -
  have 1: "Xml_start_tag ''c:catAx'' None \<notin> set document_head"
    by (simp add: document_head_def)
  have 2: "Xml_start_tag ''c:catAx'' None \<notin> set (ser_blocks_from k q)"
    using ser_blocks_from_start_tags [of "''c:catAx''" k q] by auto
  show ?thesis
    by (simp add: element_skip [OF 1] element_skip [OF 2])
      (simp add: element_def document_tail_def cat_axis_block_def)
qed

lemma element_val_axis:
  "element ''c:valAx'' (document_head @ ser_blocks_from k q @ document_tail a1 a2)
     = butlast (tl (val_axis_block a2 a1))"
proof -
  have 1: "Xml_start_tag ''c:valAx'' None \<notin> set document_head"
    by (simp add: document_head_def)
  have 2: "Xml_start_tag ''c:valAx'' None \<notin> set (ser_blocks_from k q)"
    using ser_blocks_from_start_tags [of "''c:valAx''" k q] by auto
  show ?thesis
    by (simp add: element_skip [OF 1] element_skip [OF 2])
      (simp add: element_def document_tail_def cat_axis_block_def val_axis_block_def)
qed

lemma int_vals_axis_blocks:
  "int_vals ''c:axId'' (butlast (tl (cat_axis_block own cross))) = [own]"
  "int_vals ''c:crossAx'' (butlast (tl (cat_axis_block own cross))) = [cross]"
  "int_vals ''c:axId'' (butlast (tl (val_axis_block own cross))) = [own]"
  "int_vals ''c:crossAx'' (butlast (tl (val_axis_block own cross))) = [cross]"
  by (simp_all add: int_vals_def cat_axis_block_def val_axis_block_def)

lemma int_vals_document:
  "int_vals ''c:axId'' (document_head @ ser_blocks_from k q @ document_tail a1 a2)
     = [a1, a2, a1, a2]"
  "int_vals ''c:crossAx'' (document_head @ ser_blocks_from k q @ document_tail a1 a2)
     = [a2, a1]"
  "int_vals ''c:idx'' (document_head @ ser_blocks_from k q @ document_tail a1 a2)
     = map (\<lambda>i. unat (k + of_nat i)) [0..<length q]"
  "int_vals ''c:order'' (document_head @ ser_blocks_from k q @ document_tail a1 a2)
     = map (\<lambda>i. unat (k + of_nat i)) [0..<length q]"
  by (simp_all add: int_vals_append int_vals_ser_blocks_from)
    (simp_all add: int_vals_def document_head_def document_tail_def cat_axis_block_def
      val_axis_block_def legend_block_def print_settings_block_def)


lemma with_axis_ids_idem:
  "axis_id_1 (with_axis_ids (with_axis_ids self)) = axis_id_1 (with_axis_ids self)"
  "axis_id_2 (with_axis_ids (with_axis_ids self)) = axis_id_2 (with_axis_ids self)"
  by (simp_all add: with_axis_ids_def chart_add_axis_ids_def Let_def)

lemma after_pass_fields:
  "file_f (after_pass q self) =
     file_f self @ document_head @ ser_blocks_from (series_index self) q
       @ document_tail (unat (axis_id_1 (with_axis_ids self)))
                       (unat (axis_id_2 (with_axis_ids self)))"
  "id_f (after_pass q self) = id_f self"
  "series (after_pass q self) = series self"
  "series_index (after_pass q self) = series_index self + of_nat (length q)"
  "axis_id_1 (after_pass q self) = axis_id_1 (with_axis_ids self)"
  "axis_id_2 (after_pass q self) = axis_id_2 (with_axis_ids self)"
  by (simp_all add: after_pass_def put_def with_axis_ids_fields)

lemma with_axis_ids_put: "with_axis_ids (put cs self) = put cs (with_axis_ids self)"
  by (simp add: with_axis_ids_def chart_add_axis_ids_def put_def Let_def)

lemma with_axis_ids_cached:
  "axis_id_1 self \<noteq> 0 \<Longrightarrow> with_axis_ids self = self"
  by (simp add: with_axis_ids_def)

lemma chart_write_axis_ids_fields:
  "axis_id_1 (chart_write_axis_ids self) = axis_id_1 (with_axis_ids self)"
  "axis_id_2 (chart_write_axis_ids self) = axis_id_2 (with_axis_ids self)"
  "series (chart_write_axis_ids self) = series self"
  "series_index (chart_write_axis_ids self) = series_index self"
  "with_axis_ids (chart_write_axis_ids self) = chart_write_axis_ids self"
  by (simp_all add: chart_write_axis_ids_eq put_fields with_axis_ids_fields with_axis_ids_put)
    (simp add: with_axis_ids_def chart_add_axis_ids_def Let_def)


lemma option_bind_assemble:
  "series self = Some q \<Longrightarrow>
     Option.bind (lxw_chart_assemble_xml_file self) emitted = emitted (after_pass q self)"
  by (simp add: assemble_eq)

lemma emitted_after_pass:
  "series self = Some q \<Longrightarrow>
     emitted (after_pass q self) =
       Some (document_head @ ser_blocks_from (series_index self + of_nat (length q)) q
             @ document_tail (unat (axis_id_1 (with_axis_ids self)))
                             (unat (axis_id_2 (with_axis_ids self))))"
  by (simp add: emitted_eq after_pass_fields)
    (simp add: after_pass_def with_axis_ids_put with_axis_ids_series_index put_fields
      with_axis_ids_idem)

lemma map_upt_eq_hd:
  assumes "map f [0..<n] = map g [0..<n]" and "0 < n"
  shows "f 0 = g 0"
proof -
  from assms(2) have "[0..<n] = 0 # [1..<n]"
    by (simp add: upt_conv_Cons)
  with assms(1) show ?thesis by simp
qed


section \<open>Allocation, adding series, numbering\<close>

lemmas memory_defs = calloc_def free_def lxw_strdup_def

lemma calloc_succeeds:
  assumes "False \<notin> set (fates m)"
  shows "calloc b m = (True, m\<lparr>live := b # live m, fates := tl (fates m)\<rparr>)"
proof (cases "fates m")
  case Nil
  then show ?thesis by (simp add: calloc_def)
next
  case (Cons ok rest)
  with assms have "ok" by auto
  with Cons show ?thesis by (simp add: calloc_def)
qed

lemma tl_fates: "False \<notin> set fs \<Longrightarrow> False \<notin> set (tl fs)"
  by (cases fs) auto

lemma lxw_strdup_succeeds:
  assumes "False \<notin> set (fates m)"
  shows "fst (lxw_strdup str m) = str \<and> False \<notin> set (fates (snd (lxw_strdup str m)))"
  using assms
  by (cases str) (simp_all add: lxw_strdup_def calloc_succeeds tl_fates)

lemma chart_add_series_succeeds:
  assumes "False \<notin> set (fates m)" and "series self = Some q"
  shows "\<exists>m'. chart_add_series self (Some d) m = Some (0, self\<lparr>series := Some (q @ [d])\<rparr>, m')
              \<and> False \<notin> set (fates m')"
proof -
  let ?m1 = "m\<lparr>live := Series_block # live m, fates := tl (fates m)\<rparr>"
  have f1: "False \<notin> set (fates ?m1)"
    using assms(1) by (simp add: tl_fates)
  obtain r m2 where r: "lxw_strdup (range_f (values_f d)) ?m1 = (r, m2)"
    by (cases "lxw_strdup (range_f (values_f d)) ?m1")
  with lxw_strdup_succeeds [OF f1, of "range_f (values_f d)"]
  have r': "r = range_f (values_f d)" and f2: "False \<notin> set (fates m2)"
    by simp_all
  obtain s m3 where s: "lxw_strdup (sheetname (values_f d)) m2 = (s, m3)"
    by (cases "lxw_strdup (sheetname (values_f d)) m2")
  with lxw_strdup_succeeds [OF f2, of "sheetname (values_f d)"]
  have s': "s = sheetname (values_f d)" and f3: "False \<notin> set (fates m3)"
    by simp_all
  have "chart_add_series self (Some d) m = Some (0, self\<lparr>series := Some (q @ [d])\<rparr>, m3)"
    using assms(2) r s
    by (simp add: chart_add_series_def calloc_succeeds [OF assms(1)] r' s')
  with f3 show ?thesis by blast
qed

lemma chart_add_series_all_succeeds:
  assumes "False \<notin> set (fates m)" and "series self = Some q"
  shows "\<exists>m'. chart_add_series_all ds self m
                = Some (replicate (length ds) 0, self\<lparr>series := Some (q @ ds)\<rparr>, m')"
  using assms
proof (induction ds arbitrary: self q m)
  case Nil
  then show ?case by simp
next
  case (Cons d ds)
  from chart_add_series_succeeds [OF Cons.prems]
  obtain m1 where 1: "chart_add_series self (Some d) m
                        = Some (0, self\<lparr>series := Some (q @ [d])\<rparr>, m1)"
    and f: "False \<notin> set (fates m1)"
    by blast
  have "series (self\<lparr>series := Some (q @ [d])\<rparr>) = Some (q @ [d])"
    by simp
  from Cons.IH [OF f this]
  obtain m2 where "chart_add_series_all ds (self\<lparr>series := Some (q @ [d])\<rparr>) m1
      = Some (replicate (length ds) 0, self\<lparr>series := Some (q @ d # ds)\<rparr>, m2)"
    by auto
  with 1 show ?case by simp
qed

lemma lxw_chart_new_Some:
  assumes "lxw_chart_new m0 = (Some c0, m1)"
  shows "c0 = fresh_chart"
  using assms
  by (auto simp: lxw_chart_new_def calloc_def fresh_chart_def Let_def
      split: list.splits if_splits prod.splits)

lemma ser_blocks_from_eq:
  "ser_blocks_from k q =
     concat (map (\<lambda>i. ser_block (unat (k + of_nat i)) (range_f (values_f (q ! i))))
               [0..<length q])"
proof (induction q arbitrary: k)
  case Nil
  show ?case by simp
next
  case (Cons ser rest)
  have "[0..<length (ser # rest)] = 0 # map Suc [0..<length rest]"
    by (simp add: upt_conv_Cons map_Suc_upt del: upt_Suc)
  then show ?case
    by (simp add: Cons.IH comp_def add.assoc del: upt_Suc)
qed

lemma ser_blocks_from_0: "ser_blocks_from 0 q = wrapped_ser_blocks q"
  by (simp add: ser_blocks_from_eq wrapped_ser_blocks_def unat_of_nat)

lemma wrapped_eq_numbered:
  assumes "length q \<le> 65536"
  shows "wrapped_ser_blocks q = numbered_ser_blocks q"
proof -
  have "map (\<lambda>i. ser_block (i mod 65536) (range_f (values_f (q ! i)))) [0..<length q]
        = map (\<lambda>i. ser_block i (range_f (values_f (q ! i)))) [0..<length q]"
    using assms by (intro map_cong) auto
  then show ?thesis
    unfolding wrapped_ser_blocks_def numbered_ser_blocks_def by (rule arg_cong)
qed

lemma int_vals_concat: "int_vals tag (concat xss) = concat (map (int_vals tag) xss)"
  by (induction xss) (simp_all add: int_vals_append int_vals_Nil)

lemma int_vals_numbered:
  "int_vals ''c:idx'' (numbered_ser_blocks q) = [0..<length q]"
  by (simp add: numbered_ser_blocks_def int_vals_concat comp_def int_vals_ser_block)


lemma lxw_chart_new_empty_memory:
  "lxw_chart_new empty_memory = (Some fresh_chart, memory_after_new)"
  by (simp add: lxw_chart_new_def calloc_def empty_memory_def fresh_chart_def
      memory_after_new_def Let_def)

lemma emitted_fresh_with_series:
  "emitted (fresh_chart\<lparr>series := Some ds, id_f := n, file_f := f\<rparr>) =
     Some (document_head @ wrapped_ser_blocks ds
           @ document_tail (unat (50010000 + n + 1)) (unat (50010000 + n + 1)))"
  by (simp add: emitted_eq ser_blocks_from_0 [symmetric] del: ser_blocks_from.simps)
    (simp add: fresh_chart_def zeroed_chart_def with_axis_ids_def chart_add_axis_ids_def
      Let_def)

lemma upt_65537: "[0..<65537] = [0..<65536] @ [65536]"
proof -
  have "(65537::nat) = Suc 65536" by simp
  then show ?thesis by (simp only: upt_Suc_append le0)
qed

lemma map_mod_upt: "map (\<lambda>i. i mod 65536) [0..<65537] = [0..<65536] @ [0]"
proof -
  have "map (\<lambda>i. i mod 65536) [0..<65536] = map (\<lambda>i. i) [0..<65536]"
    by (intro map_cong) auto
  then show ?thesis by (simp add: upt_65537)
qed

lemma int_vals_wrapped:
  "int_vals ''c:idx'' (wrapped_ser_blocks q) = map (\<lambda>i. i mod 65536) [0..<length q]"
  by (simp add: wrapped_ser_blocks_def int_vals_concat comp_def int_vals_ser_block)

lemma int_vals_idx_head_tail:
  "int_vals ''c:idx'' (document_head @ xs @ document_tail a1 a2) = int_vals ''c:idx'' xs"
  by (simp add: int_vals_append)
    (simp add: int_vals_def document_head_def document_tail_def cat_axis_block_def
      val_axis_block_def legend_block_def print_settings_block_def)

lemma chart_add_series_calloc_failure:
  "fates m = False # rest \<Longrightarrow>
     chart_add_series self (Some d) m = Some (- 1, self, m\<lparr>fates := rest\<rparr>)"
  by (simp add: chart_add_series_def calloc_def)

lemma lxw_chart_free_null: "lxw_chart_free None m = m"
  by (simp add: lxw_chart_free_def)

lemma lxw_chart_new_then_free:
  assumes "lxw_chart_new m = (Some c, m')"
  shows "live (lxw_chart_free (Some c) m') = live m"
  using assms
  by (auto simp: lxw_chart_new_def lxw_chart_free_def calloc_def free_def Let_def
      zeroed_chart_def split: list.splits if_splits prod.splits)

lemma lxw_chart_new_failure:
  assumes "lxw_chart_new m = (None, m')"
  shows "live m' = live m"
  using assms
  by (auto simp: lxw_chart_new_def lxw_chart_free_def calloc_def free_def Let_def
      zeroed_chart_def split: list.splits if_splits prod.splits)

section \<open>The claims\<close>

text \<open>
  C2. For every chart whose series queue exists (\<^verbatim>\<open>self->series\<close> is not \<^verbatim>\<open>NULL\<close>, as
  for every chart \<^verbatim>\<open>lxw_chart_new\<close> returns), one assembly pass adds to the sink exactly
  the document of the schema: the XML declaration, the root container with its three
  namespace declarations, the language tag, the chart with its plot area (layout, bar
  chart block with one series block per series, category axis, value axis), the legend,
  the plot-visibility flag, the print settings and the close of the root, in this nesting
  and order and with the literal attribute values of \<open>document_head\<close>, \<open>cat_axis_block\<close>,
  \<open>val_axis_block\<close>, \<open>legend_block\<close>, \<open>print_settings_block\<close> and \<open>document_tail\<close>.
\<close>

theorem assembly_emits_schema_document:
  assumes "series self = Some q"
  shows "emitted self =
           Some (document_head
                 @ ser_blocks_from (series_index self) q
                 @ document_tail (unat (axis_id_1 (with_axis_ids self)))
                                 (unat (axis_id_2 (with_axis_ids self))))"
  using assms by (simp add: emitted_eq)

theorem assembly_emits_schema_document_witness:
  "series example_chart = Some [series_A, series_B]
   \<and> emitted example_chart =
       Some (document_head
             @ ser_block 0 (Some ''Sheet1!$A$1:$A$3'')
             @ ser_block 1 (Some ''Sheet1!$B$1:$B$3'')
             @ document_tail 50010002 50010002)"
proof -
  have k: "series_index example_chart = 0"
    by (simp add: example_defs)
  show ?thesis
    using assembly_emits_schema_document [OF example_chart_series]
    by (simp add: example_chart_series k example_chart_axis_ids)
      (simp add: series_A_def series_B_def)
qed

text \<open>
  C6. \<^verbatim>\<open>chart_add_series\<close> with a \<^verbatim>\<open>NULL\<close> series descriptor returns \<^verbatim>\<open>-1\<close>, makes no
  allocation request (the memory, with the blocks it holds and the outcomes still to
  come, is as before) and leaves the chart, its series queue included, as it was.
\<close>

theorem add_series_null_descriptor:
  "chart_add_series self None m = Some (- 1, self, m)"
  by (simp add: chart_add_series_def)

text \<open>
  C10. Assembling a chart with no series still emits the whole document: the head of the
  document is followed directly by its tail (axis-id references, both axis blocks,
  legend, plot-visibility flag, print settings), and the bar chart block holds the
  direction tag, the grouping tag and the two axis-id references, nothing else.
\<close>

theorem assembly_of_empty_chart:
  assumes "series self = Some []"
  shows "emitted self =
           Some (document_head
                 @ document_tail (unat (axis_id_1 (with_axis_ids self)))
                                 (unat (axis_id_2 (with_axis_ids self))))
         \<and> map_option (element ''c:barChart'') (emitted self) =
           Some [Xml_empty_tag ''c:barDir'' (Some [Attribute_str ''val'' ''bar'']),
                 Xml_empty_tag ''c:grouping'' (Some [Attribute_str ''val'' ''clustered'']),
                 Xml_empty_tag ''c:axId''
                   (Some [Attribute_int ''val'' (unat (axis_id_1 (with_axis_ids self)))]),
                 Xml_empty_tag ''c:axId''
                   (Some [Attribute_int ''val'' (unat (axis_id_2 (with_axis_ids self)))])]"
  using assms
  by (simp add: emitted_eq element_def document_head_def document_tail_def)

theorem assembly_of_empty_chart_witness:
  "series fresh_chart = Some []
   \<and> emitted fresh_chart = Some (document_head @ document_tail 50010001 50010001)
   \<and> map_option (element ''c:barChart'') (emitted fresh_chart) =
           Some [Xml_empty_tag ''c:barDir'' (Some [Attribute_str ''val'' ''bar'']),
                 Xml_empty_tag ''c:grouping'' (Some [Attribute_str ''val'' ''clustered'']),
                 Xml_empty_tag ''c:axId'' (Some [Attribute_int ''val'' 50010001]),
                 Xml_empty_tag ''c:axId'' (Some [Attribute_int ''val'' 50010001])]"
  using fresh_chart_series
    assembly_of_empty_chart [OF fresh_chart_series, unfolded fresh_chart_axis_ids]
  by (rule conjI)

text \<open>
  C4. The axis ids are a function of the chart's id alone: \<^verbatim>\<open>_chart_add_axis_ids\<close> sets
  \<open>axis_id_1\<close> to \<open>50010000 + id + 1\<close> (in 32 bits) and \<open>axis_id_2\<close> to the same value,
  so two charts with the same id get the same pair. In the document of a pass the
  category axis carries axis id 1 as its own id and the value axis carries axis id 2, the
  category axis's cross-axis reference is the value axis's own id and the value axis's
  cross-axis reference is the category axis's own id.
\<close>

theorem axis_ids_from_chart_id:
  "axis_id_1 (chart_add_axis_ids self) = 50010000 + id_f self + 1
   \<and> axis_id_2 (chart_add_axis_ids self) = axis_id_1 (chart_add_axis_ids self)
   \<and> (id_f self = id_f other \<longrightarrow>
        axis_id_1 (chart_add_axis_ids self) = axis_id_1 (chart_add_axis_ids other)
        \<and> axis_id_2 (chart_add_axis_ids self) = axis_id_2 (chart_add_axis_ids other))
   \<and> (series self = Some q \<longrightarrow>
        (\<exists>doc. emitted self = Some doc
           \<and> int_vals ''c:axId'' (element ''c:catAx'' doc)
               = [unat (axis_id_1 (with_axis_ids self))]
           \<and> int_vals ''c:axId'' (element ''c:valAx'' doc)
               = [unat (axis_id_2 (with_axis_ids self))]
           \<and> int_vals ''c:crossAx'' (element ''c:catAx'' doc)
               = int_vals ''c:axId'' (element ''c:valAx'' doc)
           \<and> int_vals ''c:crossAx'' (element ''c:valAx'' doc)
               = int_vals ''c:axId'' (element ''c:catAx'' doc)))"
proof -
  have "axis_id_1 (chart_add_axis_ids self) = 50010000 + id_f self + 1"
    and "axis_id_2 (chart_add_axis_ids self) = axis_id_1 (chart_add_axis_ids self)"
    by (simp_all add: chart_add_axis_ids_def Let_def)
  moreover have "id_f self = id_f other \<longrightarrow>
        axis_id_1 (chart_add_axis_ids self) = axis_id_1 (chart_add_axis_ids other)
        \<and> axis_id_2 (chart_add_axis_ids self) = axis_id_2 (chart_add_axis_ids other)"
    by (simp add: chart_add_axis_ids_def Let_def)
  moreover have "series self = Some q \<longrightarrow>
        (\<exists>doc. emitted self = Some doc
           \<and> int_vals ''c:axId'' (element ''c:catAx'' doc)
               = [unat (axis_id_1 (with_axis_ids self))]
           \<and> int_vals ''c:axId'' (element ''c:valAx'' doc)
               = [unat (axis_id_2 (with_axis_ids self))]
           \<and> int_vals ''c:crossAx'' (element ''c:catAx'' doc)
               = int_vals ''c:axId'' (element ''c:valAx'' doc)
           \<and> int_vals ''c:crossAx'' (element ''c:valAx'' doc)
               = int_vals ''c:axId'' (element ''c:catAx'' doc))"
    by (simp add: emitted_eq element_cat_axis element_val_axis int_vals_axis_blocks)
  ultimately show ?thesis by blast
qed

theorem axis_ids_from_chart_id_witness:
  "axis_id_1 (chart_add_axis_ids example_chart) = 50010002
   \<and> axis_id_2 (chart_add_axis_ids example_chart) = 50010002
   \<and> id_f example_chart = id_f (fresh_chart\<lparr>id_f := 1\<rparr>)
   \<and> axis_id_1 (chart_add_axis_ids (fresh_chart\<lparr>id_f := 1\<rparr>)) = 50010002
   \<and> axis_id_2 (chart_add_axis_ids (fresh_chart\<lparr>id_f := 1\<rparr>)) = 50010002
   \<and> series example_chart = Some [series_A, series_B]
   \<and> map_option (\<lambda>doc. int_vals ''c:axId'' (element ''c:catAx'' doc)) (emitted example_chart)
       = Some [50010002]
   \<and> map_option (\<lambda>doc. int_vals ''c:crossAx'' (element ''c:catAx'' doc)) (emitted example_chart)
       = Some [50010002]
   \<and> map_option (\<lambda>doc. int_vals ''c:axId'' (element ''c:valAx'' doc)) (emitted example_chart)
       = Some [50010002]
   \<and> map_option (\<lambda>doc. int_vals ''c:crossAx'' (element ''c:valAx'' doc)) (emitted example_chart)
       = Some [50010002]"
proof -
  have i: "id_f example_chart = id_f (fresh_chart\<lparr>id_f := 1\<rparr>)" "id_f example_chart = 1"
    by (simp_all add: example_defs)
  show ?thesis
    using axis_ids_from_chart_id [of example_chart "fresh_chart\<lparr>id_f := 1\<rparr>"
        "[series_A, series_B]"]
    by (auto simp: i example_chart_series example_chart_axis_ids)
qed



text \<open>
  C7. Once a chart holds its axis ids, asking for them again changes nothing: with a
  non-zero \<open>axis_id_1\<close> cached, \<^verbatim>\<open>_chart_write_axis_ids\<close> leaves the pair as it is (it does
  not compute it again); after a first request a second request and an assembly pass
  both leave the pair unchanged, the second request writes exactly these two values, and
  every axis-id reference of the document (the two of the bar chart block, the own ids
  and the cross-axis references of both axes) is one of these two values.
\<close>

theorem axis_ids_cached:
  "(axis_id_1 self \<noteq> 0 \<longrightarrow>
      axis_id_1 (chart_write_axis_ids self) = axis_id_1 self
      \<and> axis_id_2 (chart_write_axis_ids self) = axis_id_2 self)
   \<and> (let c = chart_write_axis_ids self;
           a1 = unat (axis_id_1 c);
           a2 = unat (axis_id_2 c)
       in axis_id_1 (chart_write_axis_ids c) = axis_id_1 c
          \<and> axis_id_2 (chart_write_axis_ids c) = axis_id_2 c
          \<and> file_f (chart_write_axis_ids c) =
              file_f c @ [Xml_empty_tag ''c:axId'' (Some [Attribute_int ''val'' a1]),
                          Xml_empty_tag ''c:axId'' (Some [Attribute_int ''val'' a2])]
          \<and> (series self = Some q \<longrightarrow>
               (\<exists>c' doc. lxw_chart_assemble_xml_file c = Some c'
                  \<and> axis_id_1 c' = axis_id_1 c
                  \<and> axis_id_2 c' = axis_id_2 c
                  \<and> emitted c = Some doc
                  \<and> int_vals ''c:axId'' doc = [a1, a2, a1, a2]
                  \<and> int_vals ''c:crossAx'' doc = [a2, a1])))"
proof -
  have "axis_id_1 self \<noteq> 0 \<longrightarrow>
      axis_id_1 (chart_write_axis_ids self) = axis_id_1 self
      \<and> axis_id_2 (chart_write_axis_ids self) = axis_id_2 self"
    by (simp add: chart_write_axis_ids_fields with_axis_ids_cached)
  moreover have "file_f (chart_write_axis_ids (chart_write_axis_ids self)) =
      file_f (chart_write_axis_ids self)
        @ [Xml_empty_tag ''c:axId''
             (Some [Attribute_int ''val'' (unat (axis_id_1 (chart_write_axis_ids self)))]),
           Xml_empty_tag ''c:axId''
             (Some [Attribute_int ''val'' (unat (axis_id_2 (chart_write_axis_ids self)))])]"
    by (subst chart_write_axis_ids_eq) (simp add: put_fields chart_write_axis_ids_fields)
  moreover have "series self = Some q \<longrightarrow>
      (\<exists>c' doc. lxw_chart_assemble_xml_file (chart_write_axis_ids self) = Some c'
         \<and> axis_id_1 c' = axis_id_1 (chart_write_axis_ids self)
         \<and> axis_id_2 c' = axis_id_2 (chart_write_axis_ids self)
         \<and> emitted (chart_write_axis_ids self) = Some doc
         \<and> int_vals ''c:axId'' doc =
             [unat (axis_id_1 (chart_write_axis_ids self)),
              unat (axis_id_2 (chart_write_axis_ids self)),
              unat (axis_id_1 (chart_write_axis_ids self)),
              unat (axis_id_2 (chart_write_axis_ids self))]
         \<and> int_vals ''c:crossAx'' doc =
             [unat (axis_id_2 (chart_write_axis_ids self)),
              unat (axis_id_1 (chart_write_axis_ids self))])"
    by (simp add: assemble_eq emitted_eq chart_write_axis_ids_fields after_pass_fields
        int_vals_document)
  ultimately show ?thesis
    by (simp add: Let_def chart_write_axis_ids_fields)
qed

theorem axis_ids_cached_witness:
  "axis_id_1 cached_chart \<noteq> 0
   \<and> axis_id_1 (chart_write_axis_ids cached_chart) = 5
   \<and> axis_id_2 (chart_write_axis_ids cached_chart) = 7
   \<and> axis_id_1 (chart_write_axis_ids (chart_write_axis_ids cached_chart)) = 5
   \<and> axis_id_2 (chart_write_axis_ids (chart_write_axis_ids cached_chart)) = 7
   \<and> series cached_chart = Some [series_A, series_B]
   \<and> map_option axis_id_1 (lxw_chart_assemble_xml_file (chart_write_axis_ids cached_chart))
       = Some 5
   \<and> map_option axis_id_2 (lxw_chart_assemble_xml_file (chart_write_axis_ids cached_chart))
       = Some 7
   \<and> map_option (int_vals ''c:axId'') (emitted (chart_write_axis_ids cached_chart))
       = Some [5, 7, 5, 7]
   \<and> map_option (int_vals ''c:crossAx'') (emitted (chart_write_axis_ids cached_chart))
       = Some [7, 5]"
proof -
  have a: "axis_id_1 cached_chart = 5" "axis_id_2 cached_chart = 7"
    and s: "series cached_chart = Some [series_A, series_B]"
    by (simp_all add: cached_chart_def example_defs)
  show ?thesis
    using axis_ids_cached [of cached_chart "[series_A, series_B]"]
    by (auto simp: a s Let_def)
qed

text \<open>
  C8. Assembly does not touch the series store. A pass on a chart whose series queue
  exists returns, and the chart it leaves has the id and the series queue (the nodes,
  their order, their range and sheet-name strings) it started with; apart from the sink
  only the counter and the axis ids can differ, and the axis ids differ only if they had
  not been cached before (\<open>axis_id_1\<close> was zero): a second pass leaves them, the id and
  the queue as the first pass left them.
\<close>

theorem assembly_frame:
  assumes "series self = Some q"
  shows "\<exists>self'. lxw_chart_assemble_xml_file self = Some self'
           \<and> id_f self' = id_f self
           \<and> series self' = series self
           \<and> self' = self\<lparr>file_f := file_f self', axis_id_1 := axis_id_1 self',
                            axis_id_2 := axis_id_2 self', series_index := series_index self'\<rparr>
           \<and> (axis_id_1 self \<noteq> 0 \<longrightarrow>
                 axis_id_1 self' = axis_id_1 self \<and> axis_id_2 self' = axis_id_2 self)
           \<and> (\<exists>self''. lxw_chart_assemble_xml_file self' = Some self''
                 \<and> id_f self'' = id_f self
                 \<and> series self'' = series self
                 \<and> axis_id_1 self'' = axis_id_1 self'
                 \<and> axis_id_2 self'' = axis_id_2 self')"
proof -
  let ?c = "after_pass q self"
  have 1: "lxw_chart_assemble_xml_file self = Some ?c"
    using assms by (simp add: assemble_eq)
  have 2: "series ?c = Some q"
    using assms by (simp add: after_pass_fields)
  have 3: "lxw_chart_assemble_xml_file ?c = Some (after_pass q ?c)"
    using 2 by (simp add: assemble_eq)
  have 4: "?c = self\<lparr>file_f := file_f ?c, axis_id_1 := axis_id_1 ?c,
                            axis_id_2 := axis_id_2 ?c, series_index := series_index ?c\<rparr>"
    by (simp add: after_pass_def put_def with_axis_ids_def chart_add_axis_ids_def Let_def)
  have 5: "axis_id_1 self \<noteq> 0 \<longrightarrow>
                 axis_id_1 ?c = axis_id_1 self \<and> axis_id_2 ?c = axis_id_2 self"
    by (simp add: after_pass_fields with_axis_ids_cached)
  have 6: "axis_id_1 (after_pass q ?c) = axis_id_1 ?c" "axis_id_2 (after_pass q ?c) = axis_id_2 ?c"
    by (simp_all add: after_pass_fields)
      (simp_all add: after_pass_def put_def with_axis_ids_def chart_add_axis_ids_def Let_def)
  have 7: "id_f (after_pass q ?c) = id_f self" "series (after_pass q ?c) = series self"
    "id_f ?c = id_f self" "series ?c = series self"
    by (simp_all add: after_pass_fields)
  show ?thesis
    using 1 3 4 5 6 7 by blast
qed

theorem assembly_frame_witness:
  "series cached_chart = Some [series_A, series_B]
   \<and> axis_id_1 cached_chart \<noteq> 0
   \<and> map_option id_f (lxw_chart_assemble_xml_file cached_chart) = Some 1
   \<and> map_option series (lxw_chart_assemble_xml_file cached_chart)
       = Some (Some [series_A, series_B])
   \<and> map_option axis_id_1 (lxw_chart_assemble_xml_file cached_chart) = Some 5
   \<and> map_option axis_id_2 (lxw_chart_assemble_xml_file cached_chart) = Some 7"
proof -
  have a: "axis_id_1 cached_chart = 5" "axis_id_2 cached_chart = 7" "id_f cached_chart = 1"
    and s: "series cached_chart = Some [series_A, series_B]"
    by (simp_all add: cached_chart_def example_defs)
  show ?thesis
    using assembly_frame [OF s] by (auto simp: a s)
qed

text \<open>
  C1, as the code has it. Assembly does not reset the series-index counter. A pass
  numbers its series blocks (index and order alike) from the value the counter has when
  the pass starts, counting up in 16 bits, and leaves the counter advanced by one per
  series; a pass that starts with the counter at zero numbers from 0. A second pass over
  the same model starts where the first one stopped, and its output equals the first
  one's exactly when the number of series is a multiple of 65536 (so when there is no
  series).
\<close>

theorem series_counter_runs_on:
  assumes "series self = Some q"
  shows "\<exists>self' doc doc'.
           lxw_chart_assemble_xml_file self = Some self'
           \<and> emitted self = Some doc
           \<and> emitted self' = Some doc'
           \<and> int_vals ''c:idx'' doc
               = map (\<lambda>i. unat (series_index self + of_nat i)) [0..<length q]
           \<and> int_vals ''c:order'' doc = int_vals ''c:idx'' doc
           \<and> series_index self' = series_index self + of_nat (length q)
           \<and> int_vals ''c:idx'' doc'
               = map (\<lambda>i. unat (series_index self + of_nat (length q) + of_nat i)) [0..<length q]
           \<and> int_vals ''c:order'' doc' = int_vals ''c:idx'' doc'
           \<and> (doc' = doc \<longleftrightarrow> (of_nat (length q) :: 16 word) = 0)
           \<and> (series_index self = 0 \<longrightarrow>
                 int_vals ''c:idx'' doc = map (\<lambda>i. i mod 65536) [0..<length q])"
proof -
  let ?k = "series_index self"
  let ?n = "of_nat (length q) :: 16 word"
  let ?a1 = "unat (axis_id_1 (with_axis_ids self))"
  let ?a2 = "unat (axis_id_2 (with_axis_ids self))"
  let ?doc = "document_head @ ser_blocks_from ?k q @ document_tail ?a1 ?a2"
  let ?doc' = "document_head @ ser_blocks_from (?k + ?n) q @ document_tail ?a1 ?a2"
  have 1: "lxw_chart_assemble_xml_file self = Some (after_pass q self)"
    using assms by (simp add: assemble_eq)
  have 2: "emitted self = Some ?doc"
    using assms by (simp add: emitted_eq)
  have 3: "emitted (after_pass q self) = Some ?doc'"
    by (rule emitted_after_pass [OF assms])
  have 4: "series_index (after_pass q self) = ?k + ?n"
    by (simp add: after_pass_fields)
  have 5: "?doc' = ?doc \<longleftrightarrow> ?n = 0"
  proof
    assume eq: "?doc' = ?doc"
    show "?n = 0"
    proof (cases "length q = 0")
      case True
      then show ?thesis by simp
    next
      case False
      from eq have "int_vals ''c:idx'' ?doc' = int_vals ''c:idx'' ?doc"
        by simp
      then have "map (\<lambda>i. unat (?k + ?n + of_nat i)) [0..<length q]
                 = map (\<lambda>i. unat (?k + of_nat i)) [0..<length q]"
        by (simp only: int_vals_document)
      from map_upt_eq_hd [OF this] False have "unat (?k + ?n) = unat ?k"
        by simp
      then have "?k + ?n = ?k"
        by (simp only: word_unat_eq_iff)
      then show ?thesis by simp
    qed
  next
    assume "?n = 0"
    then show "?doc' = ?doc" by simp
  qed
  have 6: "series_index self = 0 \<longrightarrow>
      int_vals ''c:idx'' ?doc = map (\<lambda>i. i mod 65536) [0..<length q]"
    by (simp add: int_vals_document unat_of_nat)
  show ?thesis
    using 1 2 3 4 5 6 by (simp add: int_vals_document)
qed

theorem series_counter_runs_on_witness:
  "series example_chart = Some [series_A, series_B]
   \<and> series_index example_chart = 0
   \<and> map_option (int_vals ''c:idx'') (emitted example_chart) = Some [0, 1]
   \<and> map_option (int_vals ''c:order'') (emitted example_chart) = Some [0, 1]
   \<and> map_option series_index (lxw_chart_assemble_xml_file example_chart) = Some 2
   \<and> map_option (int_vals ''c:idx'')
        (Option.bind (lxw_chart_assemble_xml_file example_chart) emitted) = Some [2, 3]
   \<and> map_option (int_vals ''c:order'')
        (Option.bind (lxw_chart_assemble_xml_file example_chart) emitted) = Some [2, 3]"
proof -
  have k: "series_index example_chart = 0"
    by (simp add: example_defs)
  show ?thesis
    using series_counter_runs_on [OF example_chart_series]
    by (auto simp: example_chart_series k upt_rec)
qed

text \<open>
  C1 as stated fails: the chart with id 1 and two series is numbered 0, 1 by its first
  pass and 2, 3 by its second, so the two passes do not write the same document.
\<close>

theorem second_pass_counterexample:
  "map_option (int_vals ''c:idx'') (emitted example_chart) = Some [0, 1]
   \<and> map_option (int_vals ''c:idx'')
        (Option.bind (lxw_chart_assemble_xml_file example_chart) emitted) = Some [2, 3]
   \<and> Option.bind (lxw_chart_assemble_xml_file example_chart) emitted \<noteq> emitted example_chart"
proof -
  have k: "series_index example_chart = 0"
    by (simp add: example_defs)
  have 1: "map_option (int_vals ''c:idx'') (emitted example_chart) = Some [0, 1]"
    by (simp add: emitted_eq example_chart_series int_vals_document k upt_rec
        del: ser_blocks_from.simps)
  have 2: "map_option (int_vals ''c:idx'')
        (Option.bind (lxw_chart_assemble_xml_file example_chart) emitted) = Some [2, 3]"
    by (simp add: option_bind_assemble [OF example_chart_series]
        emitted_after_pass [OF example_chart_series] int_vals_document k upt_rec
        del: ser_blocks_from.simps)
  from 1 2 have "Option.bind (lxw_chart_assemble_xml_file example_chart) emitted
      \<noteq> emitted example_chart"
    by auto
  with 1 2 show ?thesis by blast
qed


text \<open>
  C3, as the code has it. On a chart fresh from \<^verbatim>\<open>lxw_chart_new\<close>, with every
  allocation succeeding, \<^verbatim>\<open>chart_add_series\<close> called for each of \<open>N\<close> descriptors returns
  \<open>0\<close> each time and leaves exactly these \<open>N\<close> series in the queue, in the order of the
  calls. Whatever id and sink the owner then sets, assembly writes one series block per
  series in that order; the \<open>i\<close>-th block carries \<open>i mod 65536\<close> as index and as order
  (the counter is a \<^verbatim>\<open>uint16_t\<close>) and wraps the range of the \<open>i\<close>-th series. For
  \<open>N \<le> 65536\<close> that is the numbering \<open>0, ..., N - 1\<close>.
\<close>

theorem add_series_then_assemble:
  assumes "lxw_chart_new m0 = (Some c0, m1)" and "False \<notin> set (fates m1)"
  shows "(\<exists>m2. chart_add_series_all ds c0 m1
                 = Some (replicate (length ds) 0, c0\<lparr>series := Some ds\<rparr>, m2))
         \<and> (\<forall>n f. emitted (c0\<lparr>series := Some ds, id_f := n, file_f := f\<rparr>) =
                 Some (document_head @ wrapped_ser_blocks ds
                       @ document_tail (unat (50010000 + n + 1)) (unat (50010000 + n + 1))))
         \<and> (length ds \<le> 65536 \<longrightarrow> wrapped_ser_blocks ds = numbered_ser_blocks ds)"
proof -
  have c0: "c0 = fresh_chart"
    by (rule lxw_chart_new_Some [OF assms(1)])
  have "series c0 = Some []"
    by (simp add: c0 fresh_chart_series)
  from chart_add_series_all_succeeds [OF assms(2) this, of ds]
  have 1: "\<exists>m2. chart_add_series_all ds c0 m1
                 = Some (replicate (length ds) 0, c0\<lparr>series := Some ds\<rparr>, m2)"
    by simp
  show ?thesis
    using 1 by (simp add: c0 emitted_fresh_with_series wrapped_eq_numbered)
qed

theorem add_series_then_assemble_witness:
  "lxw_chart_new empty_memory = (Some fresh_chart, memory_after_new)
   \<and> False \<notin> set (fates memory_after_new)
   \<and> length [series_A, series_B] \<le> 65536
   \<and> map_option (fst \<circ> snd) (chart_add_series_all [series_A, series_B] fresh_chart memory_after_new)
       = Some (fresh_chart\<lparr>series := Some [series_A, series_B]\<rparr>)
   \<and> map_option fst (chart_add_series_all [series_A, series_B] fresh_chart memory_after_new)
       = Some [0, 0]
   \<and> emitted (fresh_chart\<lparr>series := Some [series_A, series_B], id_f := 1, file_f := []\<rparr>)
       = Some (document_head
               @ ser_block 0 (Some ''Sheet1!$A$1:$A$3'')
               @ ser_block 1 (Some ''Sheet1!$B$1:$B$3'')
               @ document_tail 50010002 50010002)"
proof -
  have f: "False \<notin> set (fates memory_after_new)"
    by (simp add: memory_after_new_def)
  have n: "numbered_ser_blocks [series_A, series_B]
           = ser_block 0 (Some ''Sheet1!$A$1:$A$3'') @ ser_block 1 (Some ''Sheet1!$B$1:$B$3'')"
    by (simp add: numbered_ser_blocks_def upt_rec series_A_def series_B_def)
  show ?thesis
    using add_series_then_assemble [OF lxw_chart_new_empty_memory f, of "[series_A, series_B]"]
    by (auto simp: lxw_chart_new_empty_memory f n)
qed

text \<open>
  C3 as stated fails for \<open>N = 65537\<close>: the series are all stored, but the last block,
  at position 65536, carries index 0, so the document is not the one numbered
  \<open>0, ..., 65536\<close>.
\<close>

theorem numbering_wraps_counterexample:
  "lxw_chart_new empty_memory = (Some fresh_chart, memory_after_new)
   \<and> map_option (fst \<circ> snd)
        (chart_add_series_all (replicate 65537 series_A) fresh_chart memory_after_new)
       = Some (fresh_chart\<lparr>series := Some (replicate 65537 series_A)\<rparr>)
   \<and> map_option (int_vals ''c:idx'')
        (emitted (fresh_chart\<lparr>series := Some (replicate 65537 series_A)\<rparr>))
       = Some ([0..<65536] @ [0])
   \<and> emitted (fresh_chart\<lparr>series := Some (replicate 65537 series_A)\<rparr>)
       \<noteq> Some (document_head @ numbered_ser_blocks (replicate 65537 series_A)
                 @ document_tail 50010001 50010001)"
proof -
  let ?ds = "replicate 65537 series_A"
  let ?c = "fresh_chart\<lparr>series := Some ?ds\<rparr>"
  have f: "False \<notin> set (fates memory_after_new)"
    by (simp add: memory_after_new_def)
  from chart_add_series_all_succeeds [OF f fresh_chart_series, of ?ds]
  have 1: "map_option (fst \<circ> snd) (chart_add_series_all ?ds fresh_chart memory_after_new)
       = Some ?c"
    by auto
  have c: "?c = fresh_chart\<lparr>series := Some ?ds, id_f := 0, file_f := []\<rparr>"
    by (simp add: fresh_chart_def zeroed_chart_def)
  have e: "emitted ?c = Some (document_head @ wrapped_ser_blocks ?ds
           @ document_tail 50010001 50010001)"
    by (subst c, subst emitted_fresh_with_series) simp
  have 2: "map_option (int_vals ''c:idx'') (emitted ?c) = Some ([0..<65536] @ [0])"
    by (simp add: e int_vals_idx_head_tail int_vals_wrapped map_mod_upt)
  have "int_vals ''c:idx'' (document_head @ numbered_ser_blocks ?ds
                 @ document_tail 50010001 50010001) = [0..<65536] @ [65536]"
    by (simp add: int_vals_idx_head_tail int_vals_numbered upt_65537)
  with 2 have 3: "emitted ?c \<noteq> Some (document_head @ numbered_ser_blocks ?ds
                 @ document_tail 50010001 50010001)"
    by auto
  from lxw_chart_new_empty_memory 1 2 3 show ?thesis by blast
qed

text \<open>
  C5 at a failing input. The node is allocated, the duplication of the range string
  fails and the duplication of the sheet name succeeds: \<^verbatim>\<open>chart_add_series\<close> returns \<open>0\<close>
  and the queue holds a node whose range is \<^verbatim>\<open>NULL\<close>. The result of \<^verbatim>\<open>lxw_strdup\<close> is
  never checked. (When the allocation of the node itself fails, the call returns \<open>-1\<close>
  and changes nothing: \<open>chart_add_series_calloc_failure\<close>.)
\<close>

theorem add_series_strdup_failure:
  "chart_add_series fresh_chart (Some series_A) (memory_after_new\<lparr>fates := [True, False, True]\<rparr>)
     = Some (0,
             fresh_chart\<lparr>series := Some
               [\<lparr>values_f = \<lparr>range_f = None, sheetname = Some ''Sheet1''\<rparr>\<rparr>]\<rparr>,
             \<lparr>live = [String_block ''Sheet1'', Series_block, Series_list_block, Chart_block],
              fates = []\<rparr>)"
  by (simp add: chart_add_series_def memory_defs memory_after_new_def fresh_chart_def
      series_A_def Let_def)


text \<open>
  C9 at a failing input. A chart is created in the empty memory, one series is added
  and the chart is freed: the two strings of the node, the queue head and the chart are
  released, the node itself is not, and stays allocated. \<^verbatim>\<open>lxw_chart_free\<close> unlinks the
  node and frees its strings but never frees the node. (On \<^verbatim>\<open>NULL\<close> it does nothing, and
  an empty chart is released whole: \<open>lxw_chart_free_null\<close>, \<open>lxw_chart_new_then_free\<close>.)
\<close>

theorem free_leaks_series_node:
  "lxw_chart_new empty_memory = (Some fresh_chart, memory_after_new)
   \<and> chart_add_series fresh_chart (Some series_A) memory_after_new
       = Some (0, fresh_chart\<lparr>series := Some [series_A]\<rparr>,
               \<lparr>live = [String_block ''Sheet1'', String_block ''Sheet1!$A$1:$A$3'',
                        Series_block, Series_list_block, Chart_block],
                fates = []\<rparr>)
   \<and> lxw_chart_free (Some (fresh_chart\<lparr>series := Some [series_A]\<rparr>))
         \<lparr>live = [String_block ''Sheet1'', String_block ''Sheet1!$A$1:$A$3'',
                  Series_block, Series_list_block, Chart_block],
          fates = []\<rparr>
       = \<lparr>live = [Series_block], fates = []\<rparr>"
proof -
  have 2: "chart_add_series fresh_chart (Some series_A) memory_after_new
       = Some (0, fresh_chart\<lparr>series := Some [series_A]\<rparr>,
               \<lparr>live = [String_block ''Sheet1'', String_block ''Sheet1!$A$1:$A$3'',
                        Series_block, Series_list_block, Chart_block],
                fates = []\<rparr>)"
    by (simp add: chart_add_series_def memory_defs memory_after_new_def fresh_chart_def
      series_A_def Let_def)
  have 3: "lxw_chart_free (Some (fresh_chart\<lparr>series := Some [series_A]\<rparr>))
         \<lparr>live = [String_block ''Sheet1'', String_block ''Sheet1!$A$1:$A$3'',
                  Series_block, Series_list_block, Chart_block],
          fates = []\<rparr>
       = \<lparr>live = [Series_block], fates = []\<rparr>"
    by (simp add: lxw_chart_free_def free_def series_A_def Let_def)
  from lxw_chart_new_empty_memory 2 3 show ?thesis by blast
qed


end
